theory Spec2Isabelle
  imports Complex_Main "HOL-Library.Sublist" "HOL-Library.AList"
begin

section \<open>Python values\<close>

text \<open>
  A Python \<open>str\<close> is a sequence of Unicode code points, so it is a list of naturals
  here; \<open>py\<close> turns an ASCII literal into such a list.
\<close>

type_synonym str = "nat list"

definition py :: "string \<Rightarrow> str" where
  "py s = map of_char s"

text \<open>
  The configuration and every provider response come out of \<open>json.load\<close>, so they are
  arbitrary JSON values. A \<open>dict\<close> is an association list in insertion order; Python's
  \<open>None\<close> is \<open>JNull\<close>; a Python \<open>float\<close> is a real number.
\<close>

datatype json =
    JNull
  | JBool bool
  | JInt int
  | JFloat real
  | JStr str
  | JArr "json list"
  | JObj "(str \<times> json) list"

datatype exn =
    KeyError
  | TypeError
  | AttributeError
  | IndexError
  | FileNotFoundError
  | JSONDecodeError
  | UnicodeDecodeError
  | OtherError nat

text \<open>Truth value of an object, as tested by \<open>if x:\<close> and \<open>not x\<close>.\<close>

fun truthy :: "json \<Rightarrow> bool" where
  "truthy JNull = False"
| "truthy (JBool b) = b"
| "truthy (JInt i) = (i \<noteq> 0)"
| "truthy (JFloat r) = (r \<noteq> 0)"
| "truthy (JStr s) = (s \<noteq> [])"
| "truthy (JArr xs) = (xs \<noteq> [])"
| "truthy (JObj kvs) = (kvs \<noteq> [])"

text \<open>\<open>obj[key]\<close> with a string key: only a \<open>dict\<close> accepts it.\<close>

fun getitem :: "json \<Rightarrow> str \<Rightarrow> exn + json" where
  "getitem (JObj kvs) k = (case map_of kvs k of None \<Rightarrow> Inl KeyError | Some v \<Rightarrow> Inr v)"
| "getitem v k = Inl TypeError"

text \<open>\<open>obj[0]\<close>: the first element of a list, the first character of a string, the key \<open>0\<close>
  of a \<open>dict\<close> (which a JSON object never has).\<close>

fun getitem0 :: "json \<Rightarrow> exn + json" where
  "getitem0 (JArr xs) = (case xs of [] \<Rightarrow> Inl IndexError | x # _ \<Rightarrow> Inr x)"
| "getitem0 (JStr s) = (case s of [] \<Rightarrow> Inl IndexError | c # _ \<Rightarrow> Inr (JStr [c]))"
| "getitem0 (JObj kvs) = Inl KeyError"
| "getitem0 v = Inl TypeError"

text \<open>\<open>obj[key] = value\<close> with a string key.\<close>

fun setitem :: "json \<Rightarrow> str \<Rightarrow> json \<Rightarrow> exn + json" where
  "setitem (JObj kvs) k v = Inr (JObj (AList.update k v kvs))"
| "setitem obj k v = Inl TypeError"

text \<open>\<open>key in obj\<close> for a string \<open>key\<close>: a key of a \<open>dict\<close>, an element of a list, a
  substring of a string; anything else is not iterable.\<close>

fun contains :: "json \<Rightarrow> str \<Rightarrow> exn + bool" where
  "contains (JObj kvs) k = Inr (map_of kvs k \<noteq> None)"
| "contains (JArr xs) k = Inr (JStr k \<in> set xs)"
| "contains (JStr s) k = Inr (sublist k s)"
| "contains v k = Inl TypeError"

fun len :: "json \<Rightarrow> exn + nat" where
  "len (JObj kvs) = Inr (length kvs)"
| "len (JArr xs) = Inr (length xs)"
| "len (JStr s) = Inr (length s)"
| "len v = Inl TypeError"

text \<open>The elements a \<open>for\<close> loop visits.\<close>

fun iter :: "json \<Rightarrow> exn + json list" where
  "iter (JArr xs) = Inr xs"
| "iter (JObj kvs) = Inr (map (\<lambda>kv. JStr (fst kv)) kvs)"
| "iter (JStr s) = Inr (map (\<lambda>c. JStr [c]) s)"
| "iter v = Inl TypeError"

text \<open>\<open>"".join(parts)\<close>: every part must be a string.\<close>

fun join_empty :: "json list \<Rightarrow> exn + str" where
  "join_empty [] = Inr []"
| "join_empty (JStr s # ps) = (case join_empty ps of Inl e \<Rightarrow> Inl e | Inr t \<Rightarrow> Inr (s @ t))"
| "join_empty (p # ps) = Inl TypeError"

text \<open>
  \<open>s.replace(old, new)\<close>: the occurrences of \<open>old\<close> are found from the left and do not
  overlap. With an empty \<open>old\<close>, \<open>new\<close> goes before every character and at the end.
\<close>

function replace :: "str \<Rightarrow> str \<Rightarrow> str \<Rightarrow> str" where
  "replace s old new =
     (if old = [] then new @ concat (map (\<lambda>c. c # new) s)
      else if s = [] then []
      else if prefix old s then new @ replace (drop (length old) s) old new
      else hd s # replace (tl s) old new)"
  by pat_completeness auto
termination
  by (relation "measure (\<lambda>(s, old, new). length s)") auto

text \<open>Only a string has the method \<open>replace\<close>.\<close>

fun method_replace :: "json \<Rightarrow> str \<Rightarrow> str \<Rightarrow> exn + str" where
  "method_replace (JStr s) old new = Inr (replace s old new)"
| "method_replace v old new = Inl AttributeError"

text \<open>\<open>sep.join(segs)\<close> on strings, used to state what \<open>replace\<close> computes.\<close>

fun join :: "str \<Rightarrow> str list \<Rightarrow> str" where
  "join sep [] = []"
| "join sep [s] = s"
| "join sep (s # t # ts) = s @ sep @ join sep (t # ts)"

text \<open>Sequencing of steps that may raise: the first exception ends the block.\<close>

definition and_then :: "exn + 'a \<Rightarrow> ('a \<Rightarrow> exn + 'b) \<Rightarrow> exn + 'b" where
  "and_then r f = (case r of Inl e \<Rightarrow> Inl e | Inr v \<Rightarrow> f v)"

text \<open>\<open>d.get(key, default)\<close> with a string key: a method of \<open>dict\<close> only.\<close>

fun method_get :: "json \<Rightarrow> str \<Rightarrow> json \<Rightarrow> exn + json" where
  "method_get (JObj kvs) k d = Inr (case map_of kvs k of None \<Rightarrow> d | Some v \<Rightarrow> v)"
| "method_get v k d = Inl AttributeError"

text \<open>\<open>d.get(key, default)\<close> with any JSON value as the key: a list or a \<open>dict\<close> is not
  hashable, and only a string can be a key of a JSON object.\<close>

fun method_get_any :: "json \<Rightarrow> json \<Rightarrow> json \<Rightarrow> exn + json" where
  "method_get_any (JObj kvs) (JStr k) d = Inr (case map_of kvs k of None \<Rightarrow> d | Some v \<Rightarrow> v)"
| "method_get_any (JObj kvs) (JArr xs) d = Inl TypeError"
| "method_get_any (JObj kvs) (JObj ys) d = Inl TypeError"
| "method_get_any (JObj kvs) k d = Inr d"
| "method_get_any v k d = Inl AttributeError"

section \<open>Files, network and log\<close>

text \<open>
  A path holds no file, something that cannot be opened and read as UTF-8 text (the
  exception says why: no permission, a path through a plain file, bytes that are not
  UTF-8), or a text file. Opening a path for writing and writing a text to it can each
  fail; a write that fails leaves the first \<open>n\<close> characters in the file.
\<close>

datatype node = Missing | Unreadable exn | File str

record request =
  url :: str
  headers :: "(str \<times> json) list"
  payload :: json

text \<open>\<open>json_body\<close> is what \<open>response.json()\<close> returns, \<open>None\<close> when it raises.\<close>

record response =
  status_code :: int
  body_text :: str
  json_body :: "json option"

datatype event =
    ConfigLoadError exn
  | ConfigSaved str
  | ConfigSaveFailed exn
  | MemoSaved str
  | InputFileNotFound str
  | MemoGenerationError exn
  | ApiCallStarted json
  | UnsupportedProvider json
  | ApiCallDone json nat
  | ApiCallFailed json
  | OpenAIKeyNotSet
  | AnthropicKeyNotSet
  | GoogleKeyNotSet
  | ApiCallError int str
  | GoogleApiCallError int str
  | OpenAIException exn
  | AnthropicException exn
  | GoogleException exn
  | GoogleParseFailed json
  | UnknownProvider str
  | UnknownModel json str

datatype level = INFO | WARNING | ERROR

fun level_of :: "event \<Rightarrow> level" where
  "level_of (ConfigSaved p) = INFO"
| "level_of (MemoSaved p) = INFO"
| "level_of (ApiCallStarted p) = INFO"
| "level_of (ApiCallDone p n) = INFO"
| "level_of (UnknownProvider p) = WARNING"
| "level_of (UnknownModel p m) = WARNING"
| "level_of e = ERROR"

record world =
  fs :: "str \<Rightarrow> node"
  open_fault :: "str \<Rightarrow> exn option"
  write_fault :: "str \<Rightarrow> str \<Rightarrow> (exn \<times> nat) option"
  server :: "request \<Rightarrow> exn + response"
  posts :: "request list"
  logged :: "event list"

text \<open>The library functions the program calls: \<open>json.loads\<close> (which raises
  \<open>JSONDecodeError\<close> on malformed text, and other exceptions on some texts, such as
  \<open>RecursionError\<close> on deep nesting), \<open>json.dumps\<close> and \<open>str\<close>.\<close>

record pylib =
  json_loads :: "str \<Rightarrow> exn + json"
  json_dumps :: "json \<Rightarrow> str"
  str_of :: "json \<Rightarrow> str"

text \<open>A value inside an f-string.\<close>

definition fmt :: "pylib \<Rightarrow> json \<Rightarrow> str" where
  "fmt L v = (case v of JStr s \<Rightarrow> s | _ \<Rightarrow> str_of L v)"

definition emit :: "event \<Rightarrow> world \<Rightarrow> world" where
  "emit ev w = w\<lparr>logged := logged w @ [ev]\<rparr>"

text \<open>\<open>with open(path, "r", encoding="utf-8") as f: f.read()\<close>\<close>

definition read_text :: "world \<Rightarrow> str \<Rightarrow> exn + str" where
  "read_text w path =
     (case fs w path of
        Missing \<Rightarrow> Inl FileNotFoundError
      | Unreadable e \<Rightarrow> Inl e
      | File s \<Rightarrow> Inr s)"

text \<open>\<open>open(path, "w", encoding="utf-8")\<close> creates the file or empties it.\<close>

definition open_w :: "world \<Rightarrow> str \<Rightarrow> exn + world" where
  "open_w w path =
     (case open_fault w path of
        Some e \<Rightarrow> Inl e
      | None \<Rightarrow> Inr (w\<lparr>fs := (fs w)(path := File [])\<rparr>))"

text \<open>\<open>f.write(v)\<close> and the end of the \<open>with\<close> block. Only a string can be written.\<close>

definition write_w :: "world \<Rightarrow> str \<Rightarrow> json \<Rightarrow> (exn + unit) \<times> world" where
  "write_w w path v =
     (case v of
        JStr s \<Rightarrow>
          (case write_fault w path s of
             Some (e, n) \<Rightarrow> (Inl e, w\<lparr>fs := (fs w)(path := File (take n s))\<rparr>)
           | None \<Rightarrow> (Inr (), w\<lparr>fs := (fs w)(path := File s)\<rparr>))
      | _ \<Rightarrow> (Inl TypeError, w))"

text \<open>\<open>with open(path, "w", encoding="utf-8") as f: f.write(v)\<close>\<close>

definition write_file :: "world \<Rightarrow> str \<Rightarrow> json \<Rightarrow> (exn + unit) \<times> world" where
  "write_file w path v =
     (case open_w w path of
        Inl e \<Rightarrow> (Inl e, w)
      | Inr w1 \<Rightarrow> write_w w1 path v)"

text \<open>\<open>requests.post(url, headers=headers, json=data)\<close>: every call is recorded.\<close>

definition post :: "world \<Rightarrow> request \<Rightarrow> (exn + response) \<times> world" where
  "post w req = (server w req, w\<lparr>posts := posts w @ [req]\<rparr>)"

text \<open>
  \<open>os.path.splitext\<close> of \<open>posixpath\<close>: the extension starts at the last dot after the
  last slash, unless only dots stand between the two.
\<close>

definition rfind :: "nat \<Rightarrow> str \<Rightarrow> int" where
  "rfind c p = (if c \<in> set p then int (length p) - 1 - int (length (takeWhile (\<lambda>x. x \<noteq> c) (rev p))) else - 1)"

definition splitext :: "str \<Rightarrow> str \<times> str" where
  "splitext p =
     (let sepIndex = rfind 47 p; dotIndex = rfind 46 p in
      if dotIndex > sepIndex \<and>
         list_ex (\<lambda>c. c \<noteq> 46) (take (nat (dotIndex - (sepIndex + 1))) (drop (nat (sepIndex + 1)) p))
      then (take (nat dotIndex) p, drop (nat dotIndex) p)
      else (p, []))"

section \<open>The memo generator\<close>

record generator =
  config :: json
  config_path :: str

text \<open>The Japanese sentences of the source, by code point.\<close>

definition default_template :: str where
  "default_template =
     [20197, 19979, 12399, 20250, 35696, 12398, 25991, 23383, 36215, 12371, 12375, 12391,
      12377, 12290, 12371, 12428, 12434, 20803, 12395, 35696, 20107, 37682, 12434, 20316,
      25104, 12375, 12390, 12367, 12384, 12373, 12356, 12290, 10, 10] @ py ''{transcription}''"

definition openai_system_prompt :: str where
  "openai_system_prompt =
     [12354, 12394, 12383, 12399, 20250, 35696, 12398, 38899, 22768, 25991, 23383, 36215,
      12371, 12375, 12363, 12425, 35696, 20107, 37682, 12434, 20316, 25104, 12377, 12427,
      23554, 38272, 23478, 12391, 12377, 12290]"

definition default_config :: json where
  "default_config =
     JObj [
       (py ''llm'', JObj [
          (py ''provider'', JStr (py ''openai'')),
          (py ''api_key'', JStr []),
          (py ''model'', JStr (py ''gpt-4o-mini'')),
          (py ''temperature'', JFloat 0.3),
          (py ''max_tokens'', JInt 1500)]),
       (py ''templates'', JObj [
          (py ''default'', JStr default_template)])]"

text \<open>\<open>_load_config\<close>: the \<open>except\<close> clause names \<open>FileNotFoundError\<close> and
  \<open>JSONDecodeError\<close>; any other exception of \<open>open\<close>, of reading or of
  \<open>json.load\<close> leaves the function.\<close>

definition load_config :: "pylib \<Rightarrow> str \<Rightarrow> world \<Rightarrow> (exn + json) \<times> world" where
  "load_config L path w =
     (case and_then (read_text w path) (json_loads L) of
        Inr v \<Rightarrow> (Inr v, w)
      | Inl e \<Rightarrow>
          if e = FileNotFoundError \<or> e = JSONDecodeError
          then (Inr default_config, emit (ConfigLoadError e) w)
          else (Inl e, w))"

text \<open>\<open>__init__\<close>\<close>

definition init :: "pylib \<Rightarrow> str \<Rightarrow> world \<Rightarrow> (exn + generator) \<times> world" where
  "init L path w =
     (case load_config L path w of
        (Inl e, w1) \<Rightarrow> (Inl e, w1)
      | (Inr c, w1) \<Rightarrow> (Inr \<lparr>config = c, config_path = path\<rparr>, w1))"

text \<open>\<open>save_config\<close> has no \<open>return\<close> statement: its value is \<open>None\<close> on every path.\<close>

definition save_config :: "pylib \<Rightarrow> generator \<Rightarrow> world \<Rightarrow> json \<times> world" where
  "save_config L self w =
     (case write_file w (config_path self) (JStr (json_dumps L (config self))) of
        (Inr u, w1) \<Rightarrow> (JNull, emit (ConfigSaved (config_path self)) w1)
      | (Inl e, w1) \<Rightarrow> (JNull, emit (ConfigSaveFailed e) w1))"

text \<open>\<open>self.config[section][key]\<close> and \<open>self.config[section][key] = value\<close>\<close>

definition config_get :: "generator \<Rightarrow> str \<Rightarrow> str \<Rightarrow> exn + json" where
  "config_get self section k =
     and_then (getitem (config self) section) (\<lambda>d. getitem d k)"

definition config_set :: "generator \<Rightarrow> str \<Rightarrow> str \<Rightarrow> json \<Rightarrow> exn + generator" where
  "config_set self section k v =
     and_then (getitem (config self) section) (\<lambda>d.
     and_then (setitem d k v) (\<lambda>d'.
     and_then (setitem (config self) section d') (\<lambda>c.
     Inr (self\<lparr>config := c\<rparr>))))"

subsection \<open>Provider adapters\<close>

definition openai_request :: "pylib \<Rightarrow> generator \<Rightarrow> json \<Rightarrow> str \<Rightarrow> exn + request" where
  "openai_request L self api_key prompt =
     and_then (config_get self (py ''llm'') (py ''model'')) (\<lambda>model.
     and_then (config_get self (py ''llm'') (py ''temperature'')) (\<lambda>temperature.
     and_then (config_get self (py ''llm'') (py ''max_tokens'')) (\<lambda>max_tokens.
     Inr \<lparr>url = py ''https://api.openai.com/v1/chat/completions'',
          headers = [
            (py ''Content-Type'', JStr (py ''application/json'')),
            (py ''Authorization'', JStr (py ''Bearer '' @ fmt L api_key))],
          payload = JObj [
            (py ''model'', model),
            (py ''messages'', JArr [
               JObj [(py ''role'', JStr (py ''system'')), (py ''content'', JStr openai_system_prompt)],
               JObj [(py ''role'', JStr (py ''user'')), (py ''content'', JStr prompt)]]),
            (py ''temperature'', temperature),
            (py ''max_tokens'', max_tokens)]\<rparr>)))"

text \<open>\<open>response.json()\<close>\<close>

definition response_json :: "response \<Rightarrow> exn + json" where
  "response_json resp = (case json_body resp of None \<Rightarrow> Inl JSONDecodeError | Some v \<Rightarrow> Inr v)"

text \<open>\<open>result["choices"][0]["message"]["content"]\<close>\<close>

definition openai_content :: "json \<Rightarrow> exn + json" where
  "openai_content result =
     and_then (getitem result (py ''choices'')) (\<lambda>choices.
     and_then (getitem0 choices) (\<lambda>choice.
     and_then (getitem choice (py ''message'')) (\<lambda>message.
     getitem message (py ''content''))))"

text \<open>
  \<open>_call_openai_api\<close>. The key is read before the \<open>try\<close> block, so an exception of
  that lookup leaves the function; every later exception is logged and becomes \<open>None\<close>.
\<close>

definition call_openai_api :: "pylib \<Rightarrow> generator \<Rightarrow> str \<Rightarrow> world \<Rightarrow> (exn + json) \<times> world" where
  "call_openai_api L self prompt w =
     (case config_get self (py ''llm'') (py ''api_key'') of
        Inl e \<Rightarrow> (Inl e, w)
      | Inr api_key \<Rightarrow>
          if \<not> truthy api_key then (Inr JNull, emit OpenAIKeyNotSet w)
          else
            (case openai_request L self api_key prompt of
               Inl e \<Rightarrow> (Inr JNull, emit (OpenAIException e) w)
             | Inr req \<Rightarrow>
                 (case post w req of
                    (Inl e, w1) \<Rightarrow> (Inr JNull, emit (OpenAIException e) w1)
                  | (Inr resp, w1) \<Rightarrow>
                      if status_code resp = 200 then
                        (case and_then (response_json resp) openai_content of
                           Inl e \<Rightarrow> (Inr JNull, emit (OpenAIException e) w1)
                         | Inr v \<Rightarrow> (Inr v, w1))
                      else (Inr JNull, emit (ApiCallError (status_code resp) (body_text resp)) w1))))"

definition anthropic_request :: "generator \<Rightarrow> json \<Rightarrow> str \<Rightarrow> exn + request" where
  "anthropic_request self api_key prompt =
     and_then (config_get self (py ''llm'') (py ''model'')) (\<lambda>model.
     and_then (config_get self (py ''llm'') (py ''temperature'')) (\<lambda>temperature.
     and_then (config_get self (py ''llm'') (py ''max_tokens'')) (\<lambda>max_tokens.
     Inr \<lparr>url = py ''https://api.anthropic.com/v1/messages'',
          headers = [
            (py ''Content-Type'', JStr (py ''application/json'')),
            (py ''x-api-key'', api_key),
            (py ''anthropic-version'', JStr (py ''2023-06-01''))],
          payload = JObj [
            (py ''model'', model),
            (py ''messages'', JArr [
               JObj [(py ''role'', JStr (py ''user'')), (py ''content'', JStr prompt)]]),
            (py ''temperature'', temperature),
            (py ''max_tokens'', max_tokens)]\<rparr>)))"

text \<open>\<open>result["content"][0]["text"]\<close>\<close>

definition anthropic_content :: "json \<Rightarrow> exn + json" where
  "anthropic_content result =
     and_then (getitem result (py ''content'')) (\<lambda>content.
     and_then (getitem0 content) (\<lambda>block.
     getitem block (py ''text'')))"

text \<open>\<open>_call_anthropic_api\<close> reads the same key \<open>"api_key"\<close> as \<open>_call_openai_api\<close>.\<close>

definition call_anthropic_api :: "generator \<Rightarrow> str \<Rightarrow> world \<Rightarrow> (exn + json) \<times> world" where
  "call_anthropic_api self prompt w =
     (case config_get self (py ''llm'') (py ''api_key'') of
        Inl e \<Rightarrow> (Inl e, w)
      | Inr api_key \<Rightarrow>
          if \<not> truthy api_key then (Inr JNull, emit AnthropicKeyNotSet w)
          else
            (case anthropic_request self api_key prompt of
               Inl e \<Rightarrow> (Inr JNull, emit (AnthropicException e) w)
             | Inr req \<Rightarrow>
                 (case post w req of
                    (Inl e, w1) \<Rightarrow> (Inr JNull, emit (AnthropicException e) w1)
                  | (Inr resp, w1) \<Rightarrow>
                      if status_code resp = 200 then
                        (case and_then (response_json resp) anthropic_content of
                           Inl e \<Rightarrow> (Inr JNull, emit (AnthropicException e) w1)
                         | Inr v \<Rightarrow> (Inr v, w1))
                      else (Inr JNull, emit (ApiCallError (status_code resp) (body_text resp)) w1))))"

definition google_request :: "pylib \<Rightarrow> generator \<Rightarrow> json \<Rightarrow> str \<Rightarrow> exn + request" where
  "google_request L self api_key prompt =
     and_then (config_get self (py ''llm'') (py ''model'')) (\<lambda>model.
     and_then (method_replace model (py ''gemini-'') []) (\<lambda>model_id.
     and_then (config_get self (py ''llm'') (py ''temperature'')) (\<lambda>temperature.
     and_then (config_get self (py ''llm'') (py ''max_tokens'')) (\<lambda>max_tokens.
     Inr \<lparr>url = py ''https://generativelanguage.googleapis.com/v1beta/models/'' @ model_id
                 @ py '':generateContent?key='' @ fmt L api_key,
          headers = [(py ''Content-Type'', JStr (py ''application/json''))],
          payload = JObj [
            (py ''contents'', JArr [
               JObj [(py ''role'', JStr (py ''user'')),
                     (py ''parts'', JArr [JObj [(py ''text'', JStr prompt)]])]]),
            (py ''generationConfig'', JObj [
               (py ''temperature'', temperature),
               (py ''maxOutputTokens'', max_tokens),
               (py ''topP'', JFloat 0.95),
               (py ''topK'', JInt 40)])]\<rparr>))))"

text \<open>The loop over the parts: \<open>if "text" in part: text_parts.append(part["text"])\<close>\<close>

fun collect_text :: "json list \<Rightarrow> exn + json list" where
  "collect_text [] = Inr []"
| "collect_text (part # rest) =
     (case contains part (py ''text'') of
        Inl e \<Rightarrow> Inl e
      | Inr has_text \<Rightarrow>
          if has_text then
            (case getitem part (py ''text'') of
               Inl e \<Rightarrow> Inl e
             | Inr t \<Rightarrow>
                 (case collect_text rest of
                    Inl e \<Rightarrow> Inl e
                  | Inr ts \<Rightarrow> Inr (t # ts)))
          else collect_text rest)"

text \<open>
  The branch for status 200 of \<open>_call_google_api\<close>: \<open>Inr (Some s)\<close> is the returned
  text, \<open>Inr None\<close> the fall through to the "could not parse" log, \<open>Inl e\<close> an exception.
\<close>

definition google_text :: "json \<Rightarrow> exn + str option" where
  "google_text result =
     and_then (contains result (py ''candidates'')) (\<lambda>has_candidates.
     if \<not> has_candidates then Inr None else
     and_then (getitem result (py ''candidates'')) (\<lambda>candidates.
     and_then (len candidates) (\<lambda>n.
     if \<not> n > 0 then Inr None else
     and_then (getitem0 candidates) (\<lambda>candidate.
     and_then (contains candidate (py ''content'')) (\<lambda>has_content.
     if \<not> has_content then Inr None else
     and_then (getitem candidate (py ''content'')) (\<lambda>content.
     and_then (contains content (py ''parts'')) (\<lambda>has_parts.
     if \<not> has_parts then Inr None else
     and_then (getitem content (py ''parts'')) (\<lambda>parts.
     and_then (iter parts) (\<lambda>ps.
     and_then (collect_text ps) (\<lambda>text_parts.
     and_then (join_empty text_parts) (\<lambda>s.
     Inr (Some s))))))))))))"

text \<open>\<open>_call_google_api\<close> reads its own key, with \<open>""\<close> when the key is absent.\<close>

definition call_google_api :: "pylib \<Rightarrow> generator \<Rightarrow> str \<Rightarrow> world \<Rightarrow> (exn + json) \<times> world" where
  "call_google_api L self prompt w =
     (case and_then (getitem (config self) (py ''llm''))
             (\<lambda>llm. method_get llm (py ''google_api_key'') (JStr [])) of
        Inl e \<Rightarrow> (Inl e, w)
      | Inr api_key \<Rightarrow>
          if \<not> truthy api_key then (Inr JNull, emit GoogleKeyNotSet w)
          else
            (case google_request L self api_key prompt of
               Inl e \<Rightarrow> (Inr JNull, emit (GoogleException e) w)
             | Inr req \<Rightarrow>
                 (case post w req of
                    (Inl e, w1) \<Rightarrow> (Inr JNull, emit (GoogleException e) w1)
                  | (Inr resp, w1) \<Rightarrow>
                      if status_code resp = 200 then
                        (case response_json resp of
                           Inl e \<Rightarrow> (Inr JNull, emit (GoogleException e) w1)
                         | Inr result \<Rightarrow>
                             (case google_text result of
                                Inl e \<Rightarrow> (Inr JNull, emit (GoogleException e) w1)
                              | Inr None \<Rightarrow> (Inr JNull, emit (GoogleParseFailed result) w1)
                              | Inr (Some s) \<Rightarrow> (Inr (JStr s), w1)))
                      else
                        (Inr JNull,
                         emit (GoogleApiCallError (status_code resp) (body_text resp)) w1))))"

subsection \<open>Generation\<close>

text \<open>
  \<open>generate_memo\<close> has no \<open>try\<close> block: an exception of the template lookup, of the
  provider lookup, of an adapter or of \<open>len(result)\<close> in the log line leaves the function.
\<close>

definition generate_memo :: "pylib \<Rightarrow> generator \<Rightarrow> str \<Rightarrow> world \<Rightarrow> (exn + json) \<times> world" where
  "generate_memo L self transcription w =
     (case and_then (config_get self (py ''templates'') (py ''default'')) (\<lambda>template.
           and_then (method_replace template (py ''{transcription}'') transcription) (\<lambda>prompt.
           and_then (config_get self (py ''llm'') (py ''provider'')) (\<lambda>provider.
           Inr (prompt, provider)))) of
        Inl e \<Rightarrow> (Inl e, w)
      | Inr (prompt, provider) \<Rightarrow>
          (let w0 = emit (ApiCallStarted provider) w in
           case (if provider = JStr (py ''openai'') then Some (call_openai_api L self prompt w0)
                 else if provider = JStr (py ''anthropic'') then Some (call_anthropic_api self prompt w0)
                 else if provider = JStr (py ''google'') then Some (call_google_api L self prompt w0)
                 else None) of
             None \<Rightarrow> (Inr JNull, emit (UnsupportedProvider provider) w0)
           | Some (Inl e, w1) \<Rightarrow> (Inl e, w1)
           | Some (Inr result, w1) \<Rightarrow>
               if truthy result then
                 (case len result of
                    Inl e \<Rightarrow> (Inl e, w1)
                  | Inr n \<Rightarrow> (Inr result, emit (ApiCallDone provider n) w1))
               else (Inr result, emit (ApiCallFailed provider) w1)))"

text \<open>The two \<open>except\<close> clauses of \<open>generate_memo_from_file\<close>; both return \<open>None\<close>.\<close>

definition memo_failed :: "str \<Rightarrow> exn \<Rightarrow> world \<Rightarrow> json \<times> world" where
  "memo_failed input_file e w =
     (if e = FileNotFoundError then (JNull, emit (InputFileNotFound input_file) w)
      else (JNull, emit (MemoGenerationError e) w))"

definition generate_memo_from_file ::
  "pylib \<Rightarrow> generator \<Rightarrow> str \<Rightarrow> str option \<Rightarrow> world \<Rightarrow> json \<times> world" where
  "generate_memo_from_file L self input_file output_file w =
     (case read_text w input_file of
        Inl e \<Rightarrow> memo_failed input_file e w
      | Inr transcription \<Rightarrow>
          (let out = (case output_file of
                        None \<Rightarrow> fst (splitext input_file) @ py ''_memo.txt''
                      | Some path \<Rightarrow> path)
           in case generate_memo L self transcription w of
                (Inl e, w1) \<Rightarrow> memo_failed input_file e w1
              | (Inr memo, w1) \<Rightarrow>
                  if truthy memo then
                    (case write_file w1 out memo of
                       (Inl e, w2) \<Rightarrow> memo_failed input_file e w2
                     | (Inr u, w2) \<Rightarrow> (memo, emit (MemoSaved out) w2))
                  else (JNull, w1)))"

subsection \<open>Setters\<close>

definition set_provider :: "generator \<Rightarrow> str \<Rightarrow> world \<Rightarrow> (exn + generator) \<times> world" where
  "set_provider self provider w =
     (case and_then (method_get (config self) (py ''providers'') (JObj []))
             (\<lambda>catalog. contains catalog provider) of
        Inl e \<Rightarrow> (Inl e, w)
      | Inr known \<Rightarrow>
          (config_set self (py ''llm'') (py ''provider'') (JStr provider),
           if \<not> known then emit (UnknownProvider provider) w else w))"

definition set_model :: "generator \<Rightarrow> str \<Rightarrow> world \<Rightarrow> (exn + generator) \<times> world" where
  "set_model self model w =
     (case and_then (config_get self (py ''llm'') (py ''provider'')) (\<lambda>provider.
           and_then (method_get (config self) (py ''providers'') (JObj [])) (\<lambda>catalog.
           and_then (method_get_any catalog provider (JArr [])) (\<lambda>models.
           if truthy models
           then and_then (contains models model) (\<lambda>known. Inr (provider, \<not> known))
           else Inr (provider, False)))) of
        Inl e \<Rightarrow> (Inl e, w)
      | Inr (provider, unknown) \<Rightarrow>
          (config_set self (py ''llm'') (py ''model'') (JStr model),
           if unknown then emit (UnknownModel provider model) w else w))"

definition set_api_key :: "generator \<Rightarrow> str \<Rightarrow> exn + generator" where
  "set_api_key self api_key = config_set self (py ''llm'') (py ''api_key'') (JStr api_key)"

definition set_google_api_key :: "generator \<Rightarrow> str \<Rightarrow> exn + generator" where
  "set_google_api_key self api_key =
     config_set self (py ''llm'') (py ''google_api_key'') (JStr api_key)"

definition set_temperature :: "generator \<Rightarrow> real \<Rightarrow> exn + generator" where
  "set_temperature self temperature =
     config_set self (py ''llm'') (py ''temperature'') (JFloat (max 0 (min 1 temperature)))"

definition set_max_tokens :: "generator \<Rightarrow> int \<Rightarrow> exn + generator" where
  "set_max_tokens self max_tokens =
     config_set self (py ''llm'') (py ''max_tokens'') (JInt (max 1 max_tokens))"

definition set_template :: "generator \<Rightarrow> str \<Rightarrow> exn + generator" where
  "set_template self template_text =
     config_set self (py ''templates'') (py ''default'') (JStr template_text)"

section \<open>Notions used in the statements\<close>

text \<open>
  The \<open>"text"\<close> fields among the parts of a provider C response, in order, for parts
  that are JSON objects whose \<open>"text"\<close> field, when present, is a string.
\<close>

fun part_texts :: "json list \<Rightarrow> str list" where
  "part_texts [] = []"
| "part_texts (JObj kvs # ps) =
     (case map_of kvs (py ''text'') of
        Some (JStr s) \<Rightarrow> s # part_texts ps
      | _ \<Rightarrow> part_texts ps)"
| "part_texts (p # ps) = part_texts ps"

fun text_part :: "json \<Rightarrow> bool" where
  "text_part (JObj kvs) =
     (case map_of kvs (py ''text'') of
        None \<Rightarrow> True
      | Some (JStr s) \<Rightarrow> True
      | Some v \<Rightarrow> False)"
| "text_part p = False"

text \<open>The value at the path \<open>candidates[0].content.parts\<close> of a body, if the body has it:
  a JSON object whose \<open>"candidates"\<close> is a list that starts with an object, whose
  \<open>"content"\<close> is an object with the key \<open>"parts"\<close>.\<close>

definition parts_of :: "json \<Rightarrow> json option" where
  "parts_of result =
     (case result of
        JObj body \<Rightarrow>
          (case map_of body (py ''candidates'') of
             Some (JArr (JObj cand # rest)) \<Rightarrow>
               (case map_of cand (py ''content'') of
                  Some (JObj content) \<Rightarrow> map_of content (py ''parts'')
                | _ \<Rightarrow> None)
           | _ \<Rightarrow> None)
      | _ \<Rightarrow> None)"

text \<open>The request carries the prompt: as the content of a user message (providers A and
  B) or as the text of the single part of a user content (provider C).\<close>

definition carries_prompt :: "request \<Rightarrow> str \<Rightarrow> bool" where
  "carries_prompt req prompt =
     (case payload req of
        JObj kvs \<Rightarrow>
          (case map_of kvs (py ''messages'') of
             Some (JArr ms) \<Rightarrow>
               JObj [(py ''role'', JStr (py ''user'')), (py ''content'', JStr prompt)] \<in> set ms
           | _ \<Rightarrow>
               (case map_of kvs (py ''contents'') of
                  Some (JArr cs) \<Rightarrow>
                    JObj [(py ''role'', JStr (py ''user'')),
                          (py ''parts'', JArr [JObj [(py ''text'', JStr prompt)]])] \<in> set cs
                | _ \<Rightarrow> False))
      | _ \<Rightarrow> False)"

section \<open>Example environments\<close>

definition example_lib :: pylib where
  "example_lib = \<lparr>json_loads = (\<lambda>s. Inl JSONDecodeError), json_dumps = (\<lambda>v. py ''{}''), str_of = (\<lambda>v. [])\<rparr>"

definition example_generator :: "str \<Rightarrow> str \<Rightarrow> generator" where
  "example_generator provider key =
     \<lparr>config = JObj [
        (py ''llm'', JObj [
           (py ''provider'', JStr provider),
           (py ''api_key'', JStr key),
           (py ''google_api_key'', JStr key),
           (py ''model'', JStr (py ''gemini-pro'')),
           (py ''temperature'', JFloat 0.3),
           (py ''max_tokens'', JInt 1500)]),
        (py ''templates'', JObj [
           (py ''default'', JStr (py ''Summarize:\<newline>{transcription}''))])],
      config_path = py ''config.json''\<rparr>"

definition templated_generator :: "str \<Rightarrow> str \<Rightarrow> generator" where
  "templated_generator template provider =
     \<lparr>config = JObj [
        (py ''llm'', JObj [
           (py ''provider'', JStr provider),
           (py ''api_key'', JStr (py ''sk-test'')),
           (py ''google_api_key'', JStr (py ''g-key'')),
           (py ''model'', JStr (py ''gemini-pro'')),
           (py ''temperature'', JFloat 0.3),
           (py ''max_tokens'', JInt 1500)]),
        (py ''templates'', JObj [(py ''default'', JStr template)])],
      config_path = py ''config.json''\<rparr>"

definition example_world :: "(str \<times> str) list \<Rightarrow> (request \<Rightarrow> exn + response) \<Rightarrow> world" where
  "example_world files srv =
     \<lparr>fs = (\<lambda>p. case map_of files p of None \<Rightarrow> Missing | Some s \<Rightarrow> File s),
      open_fault = (\<lambda>p. None),
      write_fault = (\<lambda>p s. None),
      server = srv,
      posts = [],
      logged = []\<rparr>"

definition reply :: "int \<Rightarrow> str \<Rightarrow> json option \<Rightarrow> request \<Rightarrow> exn + response" where
  "reply status txt body req = Inr \<lparr>status_code = status, body_text = txt, json_body = body\<rparr>"

definition openai_body :: "str \<Rightarrow> json" where
  "openai_body content =
     JObj [(py ''choices'', JArr [JObj [(py ''message'', JObj [(py ''content'', JStr content)])]])]"

definition google_body :: "json list \<Rightarrow> json" where
  "google_body parts =
     JObj [(py ''candidates'', JArr [JObj [(py ''content'', JObj [(py ''parts'', JArr parts)])]])]"

text \<open>The configuration that \<open>gui.py\<close> starts from and saves to \<open>config.json\<close>: it has
  one key per provider and no \<open>"api_key"\<close>.\<close>

definition gui_default_config :: json where
  "gui_default_config =
     JObj [
       (py ''llm'', JObj [
          (py ''provider'', JStr (py ''openai'')),
          (py ''openai_api_key'', JStr []),
          (py ''anthropic_api_key'', JStr []),
          (py ''google_api_key'', JStr []),
          (py ''model'', JStr (py ''gpt-4o-mini'')),
          (py ''temperature'', JFloat 0.3),
          (py ''max_tokens'', JInt 1500)]),
       (py ''templates'', JObj [
          (py ''default'', JStr (
             [20197, 19979, 12399, 20250, 35696, 12398, 25991, 23383, 36215, 12371, 12375,
              12391, 12377, 12290, 12371, 12428, 12434, 20803, 12395, 65, 73, 12513, 12514,
              12434, 20316, 25104, 12375, 12390, 12367, 12384, 12373, 12356, 12290, 10, 10]
             @ py ''{transcription}''))]),
       (py ''providers'', JObj [
          (py ''openai'', JArr [JStr (py ''gpt-3.5-turbo''), JStr (py ''gpt-4o-mini'')]),
          (py ''anthropic'', JArr [JStr (py ''claude-3-haiku-20240307'')]),
          (py ''google'', JArr [JStr (py ''gemini-pro'')])])]"

section \<open>Strings\<close>

lemma py_inj [simp]: "py s = py t \<longleftrightarrow> s = t"
  unfolding py_def using inj_of_char by (simp add: inj_map_eq_map inj_on_def)

lemma py_Nil [simp]: "py s = [] \<longleftrightarrow> s = []" "[] = py s \<longleftrightarrow> s = []"
  by (auto simp: py_def)

declare replace.simps [simp del]

lemma replace_no_occurrence:
  "old \<noteq> [] \<Longrightarrow> \<not> sublist old s \<Longrightarrow> replace s old new = s"
proof (induction s)
  case Nil
  then show ?case by (simp add: replace.simps)
next
  case (Cons c cs)
  then have "\<not> prefix old (c # cs)" "\<not> sublist old cs"
    by (auto simp: sublist_Cons_right)
  with Cons show ?case by (simp add: replace.simps [of "c # cs"])
qed

lemma replace_at_occurrence:
  "old \<noteq> [] \<Longrightarrow> replace (old @ rest) old new = new @ replace rest old new"
  by (simp add: replace.simps [of "old @ rest"])

text \<open>A token whose first character does not occur again in it cannot overlap itself.\<close>

lemma replace_segment:
  assumes tok: "old = a # body" "a \<notin> set body"
    and seg: "\<not> sublist old seg"
  shows "replace (seg @ old @ rest) old new = seg @ new @ replace rest old new"
  using seg
proof (induction seg)
  case Nil
  have "old \<noteq> []" using tok by simp
  then show ?case by (simp add: replace_at_occurrence)
next
  case (Cons c seg)
  have np: "\<not> prefix old (c # seg)" and ns: "\<not> sublist old seg"
    using Cons.prems by (auto simp: sublist_Cons_right)
  have "\<not> prefix old ((c # seg) @ old @ rest)"
  proof
    assume p: "prefix old ((c # seg) @ old @ rest)"
    then have "prefix body (seg @ old @ rest)" and ca: "c = a"
      using tok by auto
    moreover have nb: "\<not> prefix body seg"
      using np tok ca by auto
    ultimately obtain us where us: "body = seg @ us" "prefix us (old @ rest)"
      by (auto simp: prefix_append)
    from us nb have "us \<noteq> []" by auto
    with us(2) tok have "a \<in> set us" by (cases us) auto
    with us(1) tok show False by auto
  qed
  moreover have "old \<noteq> []" using tok by simp
  ultimately have "replace ((c # seg) @ old @ rest) old new = c # replace (seg @ old @ rest) old new"
    by (simp add: replace.simps [of "c # seg @ old @ rest"])
  with Cons.IH [OF ns] show ?case by simp
qed

lemma replace_join:
  assumes tok: "old = a # body" "a \<notin> set body"
    and segs: "\<forall>seg \<in> set segs. \<not> sublist old seg"
  shows "replace (join old segs) old new = join new segs"
  using segs
proof (induction segs rule: induct_list012)
  case 1
  show ?case using tok by (simp add: replace.simps)
next
  case (2 s)
  moreover have "old \<noteq> []" using tok by simp
  ultimately show ?case by (simp add: replace_no_occurrence)
next
  case (3 s t ts)
  then show ?case by (simp add: replace_segment [OF tok])
qed

text \<open>Every string splits at the occurrences of a token into token-free segments.\<close>

lemma split_exists:
  assumes "old \<noteq> []"
  shows "\<exists>segs. segs \<noteq> [] \<and> s = join old segs \<and> (\<forall>seg \<in> set segs. \<not> sublist old seg)"
proof (induction s rule: length_induct)
  case (1 s)
  show ?case
  proof (cases "sublist old s")
    case False
    then have "[s] \<noteq> [] \<and> s = join old [s] \<and> (\<forall>seg \<in> set [s]. \<not> sublist old seg)" by simp
    then show ?thesis by blast
  next
    case True
    define P where "P = (\<lambda>n. \<exists>ps ss. s = ps @ old @ ss \<and> length ps = n)"
    from True have "\<exists>n. P n" by (auto simp: sublist_def P_def)
    then have "P (LEAST n. P n)" and least: "\<And>m. P m \<Longrightarrow> (LEAST n. P n) \<le> m"
      by (auto intro: LeastI_ex Least_le)
    then obtain ps ss where s: "s = ps @ old @ ss" and l: "length ps = (LEAST n. P n)"
      by (auto simp: P_def)
    have nps: "\<not> sublist old ps"
    proof
      assume "sublist old ps"
      then obtain qs rs where "ps = qs @ old @ rs" by (auto simp: sublist_def)
      with s have "P (length qs)" and "length qs < length ps"
        using assms by (auto simp: P_def)
      with least l show False by fastforce
    qed
    have "length ss < length s" using s assms by simp
    with 1 obtain segs where segs: "segs \<noteq> []" "ss = join old segs"
      "\<forall>seg \<in> set segs. \<not> sublist old seg" by blast
    then obtain t ts where tts: "segs = t # ts" by (cases segs) auto
    have "s = join old (ps # segs)" using s segs(2) tts by simp
    with nps segs(3) have "ps # segs \<noteq> [] \<and> s = join old (ps # segs) \<and>
        (\<forall>seg \<in> set (ps # segs). \<not> sublist old seg)" by simp
    then show ?thesis by blast
  qed
qed

section \<open>Frame\<close>

lemma emit_frame [simp]:
  "fs (emit ev w) = fs w" "open_fault (emit ev w) = open_fault w"
  "write_fault (emit ev w) = write_fault w" "server (emit ev w) = server w"
  "posts (emit ev w) = posts w" "logged (emit ev w) = logged w @ [ev]"
  by (simp_all add: emit_def)

section \<open>Rendering the prompt\<close>

lemma openai_request_carries: "openai_request L self key prompt = Inr req \<Longrightarrow> carries_prompt req prompt"
  by (auto simp: openai_request_def and_then_def carries_prompt_def split: sum.splits)

lemma anthropic_request_carries: "anthropic_request self key prompt = Inr req \<Longrightarrow> carries_prompt req prompt"
  by (auto simp: anthropic_request_def and_then_def carries_prompt_def split: sum.splits)

lemma google_request_carries: "google_request L self key prompt = Inr req \<Longrightarrow> carries_prompt req prompt"
  by (auto simp: google_request_def and_then_def carries_prompt_def split: sum.splits)

lemma call_openai_api_posts:
  assumes "config_get self (py ''llm'') (py ''api_key'') = Inr key" and "truthy key"
    and "openai_request L self key prompt = Inr req"
  shows "posts (snd (call_openai_api L self prompt w)) = posts w @ [req]"
  using assms by (auto simp: call_openai_api_def post_def split: sum.splits)

lemma call_anthropic_api_posts:
  assumes "config_get self (py ''llm'') (py ''api_key'') = Inr key" and "truthy key"
    and "anthropic_request self key prompt = Inr req"
  shows "posts (snd (call_anthropic_api self prompt w)) = posts w @ [req]"
  using assms by (auto simp: call_anthropic_api_def post_def split: sum.splits)

lemma call_google_api_posts:
  assumes "and_then (getitem (config self) (py ''llm''))
             (\<lambda>llm. method_get llm (py ''google_api_key'') (JStr [])) = Inr key" and "truthy key"
    and "google_request L self key prompt = Inr req"
  shows "posts (snd (call_google_api L self prompt w)) = posts w @ [req]"
  using assms by (auto simp: call_google_api_def post_def split: sum.splits option.splits)

text \<open>What \<open>generate_memo\<close> posts is what the selected adapter posts for the rendered
  prompt, from the world with the start of the call logged.\<close>

lemma generate_memo_posts:
  assumes "config_get self (py ''templates'') (py ''default'') = Inr template"
    and "method_replace template (py ''{transcription}'') transcription = Inr prompt"
    and "config_get self (py ''llm'') (py ''provider'') = Inr provider"
  shows "posts (snd (generate_memo L self transcription w)) =
           (if provider = JStr (py ''openai'')
            then posts (snd (call_openai_api L self prompt (emit (ApiCallStarted provider) w)))
            else if provider = JStr (py ''anthropic'')
            then posts (snd (call_anthropic_api self prompt (emit (ApiCallStarted provider) w)))
            else if provider = JStr (py ''google'')
            then posts (snd (call_google_api L self prompt (emit (ApiCallStarted provider) w)))
            else posts w)"
  using assms
  by (auto simp: generate_memo_def and_then_def Let_def split: sum.splits prod.splits)

text \<open>
  C4. \<open>generate_memo\<close> renders the prompt with
  \<open>template.replace("{transcription}", transcription)\<close> and hands it to the selected
  adapter. Whenever the configured template is a sequence of segments free of the
  placeholder with the placeholder between them, the rendered prompt is the same segments
  with the transcript between them (every occurrence is replaced and nothing else
  changes), and the request that \<open>generate_memo\<close> posts, for each of the three providers,
  is the one built from this prompt and carries it. Every template is such a sequence.
\<close>

theorem render_replaces_every_placeholder:
  assumes "config_get self (py ''templates'') (py ''default'')
             = Inr (JStr (join (py ''{transcription}'') segs))"
    and "\<forall>seg \<in> set segs. \<not> sublist (py ''{transcription}'') seg"
    and "config_get self (py ''llm'') (py ''provider'') = Inr (JStr p)"
  shows "method_replace (JStr (join (py ''{transcription}'') segs)) (py ''{transcription}'') transcription
           = Inr (join transcription segs) \<and>
         (p = py ''openai'' \<and> config_get self (py ''llm'') (py ''api_key'') = Inr key \<and> truthy key \<and>
          openai_request L self key (join transcription segs) = Inr req \<longrightarrow>
            posts (snd (generate_memo L self transcription w)) = posts w @ [req] \<and>
            carries_prompt req (join transcription segs)) \<and>
         (p = py ''anthropic'' \<and> config_get self (py ''llm'') (py ''api_key'') = Inr key \<and> truthy key \<and>
          anthropic_request self key (join transcription segs) = Inr req \<longrightarrow>
            posts (snd (generate_memo L self transcription w)) = posts w @ [req] \<and>
            carries_prompt req (join transcription segs)) \<and>
         (p = py ''google'' \<and>
          and_then (getitem (config self) (py ''llm''))
            (\<lambda>llm. method_get llm (py ''google_api_key'') (JStr [])) = Inr key \<and> truthy key \<and>
          google_request L self key (join transcription segs) = Inr req \<longrightarrow>
            posts (snd (generate_memo L self transcription w)) = posts w @ [req] \<and>
            carries_prompt req (join transcription segs)) \<and>
         (\<exists>segs'. segs' \<noteq> [] \<and> template = join (py ''{transcription}'') segs' \<and>
            (\<forall>seg \<in> set segs'. \<not> sublist (py ''{transcription}'') seg))"
proof -
  have tok: "py ''{transcription}'' = 123 # py ''transcription}''" "123 \<notin> set (py ''transcription}'')"
    by (simp_all add: py_def)
  have ne: "py ''{transcription}'' \<noteq> []" by simp
  have r: "method_replace (JStr (join (py ''{transcription}'') segs)) (py ''{transcription}'') transcription
           = Inr (join transcription segs)"
    using replace_join [OF tok assms(2)] by simp
  note gp = generate_memo_posts [OF assms(1) r assms(3), of L w]
  have a: "posts (snd (generate_memo L self transcription w)) = posts w @ [req] \<and>
           carries_prompt req (join transcription segs)"
    if "p = py ''openai''" "config_get self (py ''llm'') (py ''api_key'') = Inr key" "truthy key"
       "openai_request L self key (join transcription segs) = Inr req"
    using gp that call_openai_api_posts [OF that(2,3,4)] openai_request_carries [OF that(4)]
    by simp
  have b: "posts (snd (generate_memo L self transcription w)) = posts w @ [req] \<and>
           carries_prompt req (join transcription segs)"
    if "p = py ''anthropic''" "config_get self (py ''llm'') (py ''api_key'') = Inr key" "truthy key"
       "anthropic_request self key (join transcription segs) = Inr req"
    using gp that call_anthropic_api_posts [OF that(2,3,4)] anthropic_request_carries [OF that(4)]
    by simp
  have c: "posts (snd (generate_memo L self transcription w)) = posts w @ [req] \<and>
           carries_prompt req (join transcription segs)"
    if "p = py ''google''"
       "and_then (getitem (config self) (py ''llm''))
          (\<lambda>llm. method_get llm (py ''google_api_key'') (JStr [])) = Inr key" "truthy key"
       "google_request L self key (join transcription segs) = Inr req"
    using gp that call_google_api_posts [OF that(2,3,4)] google_request_carries [OF that(4)]
    by simp
  from r a b c split_exists [OF ne, of template] show ?thesis by blast
qed

text \<open>The template \<open>{transcription}{transcription}\<close> with the transcript \<open>Y\<close>: each of
  the three providers is sent \<open>YY\<close>.\<close>

theorem render_replaces_every_placeholder_witness:
  "method_replace (JStr (py ''{transcription}{transcription}'')) (py ''{transcription}'') (py ''Y'')
     = Inr (py ''YY'') \<and>
   map (\<lambda>req. carries_prompt req (py ''YY''))
     (posts (snd (generate_memo example_lib
        (templated_generator (py ''{transcription}{transcription}'') (py ''openai'')) (py ''Y'')
        (example_world [] (reply 200 [] None))))) = [True] \<and>
   map (\<lambda>req. carries_prompt req (py ''YY''))
     (posts (snd (generate_memo example_lib
        (templated_generator (py ''{transcription}{transcription}'') (py ''anthropic'')) (py ''Y'')
        (example_world [] (reply 200 [] None))))) = [True] \<and>
   map (\<lambda>req. carries_prompt req (py ''YY''))
     (posts (snd (generate_memo example_lib
        (templated_generator (py ''{transcription}{transcription}'') (py ''google'')) (py ''Y'')
        (example_world [] (reply 200 [] None))))) = [True]"
proof -
  let ?t = "py ''{transcription}{transcription}''"
  let ?w = "example_world [] (reply 200 [] None)"
  have j: "join (py ''{transcription}'') [[], [], []] = ?t" "join (py ''Y'') [[], [], []] = py ''YY''"
    by (simp_all add: py_def)
  have t: "config_get (templated_generator ?t p) (py ''templates'') (py ''default'')
           = Inr (JStr (join (py ''{transcription}'') [[], [], []]))" for p
    unfolding j by (simp add: config_get_def and_then_def templated_generator_def)
  have f: "\<forall>seg \<in> set [[], [], []]. \<not> sublist (py ''{transcription}'') seg" by simp
  have p: "config_get (templated_generator ?t p) (py ''llm'') (py ''provider'') = Inr (JStr p)" for p
    by (simp add: config_get_def and_then_def templated_generator_def)
  have k: "config_get (templated_generator ?t p) (py ''llm'') (py ''api_key'') = Inr (JStr (py ''sk-test''))"
    "and_then (getitem (config (templated_generator ?t p)) (py ''llm''))
       (\<lambda>llm. method_get llm (py ''google_api_key'') (JStr [])) = Inr (JStr (py ''g-key''))" for p
    by (simp_all add: config_get_def and_then_def templated_generator_def)
  obtain ra where ra: "openai_request example_lib (templated_generator ?t (py ''openai''))
      (JStr (py ''sk-test'')) (py ''YY'') = Inr ra"
    by (simp add: openai_request_def config_get_def and_then_def templated_generator_def)
  obtain rb where rb: "anthropic_request (templated_generator ?t (py ''anthropic''))
      (JStr (py ''sk-test'')) (py ''YY'') = Inr rb"
    by (simp add: anthropic_request_def config_get_def and_then_def templated_generator_def)
  obtain rc where rc: "google_request example_lib (templated_generator ?t (py ''google''))
      (JStr (py ''g-key'')) (py ''YY'') = Inr rc"
    by (simp add: google_request_def config_get_def and_then_def templated_generator_def)
  from render_replaces_every_placeholder [where segs = "[[], [], []]" and transcription = "py ''Y''"
      and p = "py ''openai''" and key = "JStr (py ''sk-test'')" and L = example_lib and req = ra
      and w = ?w, OF t f p, unfolded j] k ra
  have a: "posts (snd (generate_memo example_lib (templated_generator ?t (py ''openai'')) (py ''Y'') ?w))
             = posts ?w @ [ra] \<and> carries_prompt ra (py ''YY'')"
    and m: "method_replace (JStr ?t) (py ''{transcription}'') (py ''Y'') = Inr (py ''YY'')"
    by simp_all
  from render_replaces_every_placeholder [where segs = "[[], [], []]" and transcription = "py ''Y''"
      and p = "py ''anthropic''" and key = "JStr (py ''sk-test'')" and L = example_lib and req = rb
      and w = ?w, OF t f p, unfolded j] k rb
  have b: "posts (snd (generate_memo example_lib (templated_generator ?t (py ''anthropic'')) (py ''Y'') ?w))
             = posts ?w @ [rb] \<and> carries_prompt rb (py ''YY'')"
    by simp
  from render_replaces_every_placeholder [where segs = "[[], [], []]" and transcription = "py ''Y''"
      and p = "py ''google''" and key = "JStr (py ''g-key'')" and L = example_lib and req = rc
      and w = ?w, OF t f p, unfolded j] k rc
  have c: "posts (snd (generate_memo example_lib (templated_generator ?t (py ''google'')) (py ''Y'') ?w))
             = posts ?w @ [rc] \<and> carries_prompt rc (py ''YY'')"
    by simp
  have e: "posts ?w = []" by (simp add: example_world_def)
  from a b c m e show ?thesis by simp
qed

section \<open>Files are left alone by generation\<close>

lemma call_openai_api_frame:
  "call_openai_api L self prompt w = (r, w') \<Longrightarrow>
   fs w' = fs w \<and> open_fault w' = open_fault w \<and> write_fault w' = write_fault w \<and> server w' = server w"
  by (auto simp: call_openai_api_def post_def split: sum.splits if_splits prod.splits)

lemma call_anthropic_api_frame:
  "call_anthropic_api self prompt w = (r, w') \<Longrightarrow>
   fs w' = fs w \<and> open_fault w' = open_fault w \<and> write_fault w' = write_fault w \<and> server w' = server w"
  by (auto simp: call_anthropic_api_def post_def split: sum.splits if_splits prod.splits)

lemma call_google_api_frame:
  "call_google_api L self prompt w = (r, w') \<Longrightarrow>
   fs w' = fs w \<and> open_fault w' = open_fault w \<and> write_fault w' = write_fault w \<and> server w' = server w"
  by (auto simp: call_google_api_def post_def split: sum.splits if_splits prod.splits option.splits)

lemma generate_memo_frame:
  assumes "generate_memo L self t w = (r, w')"
  shows "fs w' = fs w \<and> open_fault w' = open_fault w \<and> write_fault w' = write_fault w \<and> server w' = server w"
  using assms
  unfolding generate_memo_def Let_def
  by (auto split: sum.splits if_splits prod.splits option.splits
      dest!: call_openai_api_frame call_anthropic_api_frame call_google_api_frame)

section \<open>Running the examples\<close>

lemmas run_simps =
  generate_memo_from_file_def generate_memo_def call_openai_api_def call_anthropic_api_def
  call_google_api_def openai_request_def anthropic_request_def google_request_def
  openai_content_def anthropic_content_def google_text_def response_json_def
  config_get_def config_set_def and_then_def post_def emit_def read_text_def write_file_def
  open_w_def write_w_def memo_failed_def fmt_def Let_def
  example_lib_def example_generator_def example_world_def reply_def openai_body_def
  google_body_def

lemma splitext_meeting: "fst (splitext (py ''meeting.txt'')) @ py ''_memo.txt'' = py ''meeting_memo.txt''"
  by (simp add: splitext_def rfind_def py_def)

section \<open>File pipeline\<close>

text \<open>
  C1, as amended. When the input file reads, generation returns a non-empty text and the
  write succeeds, \<open>generate_memo_from_file\<close> returns that text, the output path (by default
  the input path without its extension, plus \<open>_memo.txt\<close>) holds exactly that text and no
  other file changes. When the write fails, the call returns \<open>None\<close>.
\<close>

theorem memo_written:
  assumes "read_text w input_file = Inr transcription"
    and "generate_memo L self transcription w = (Inr (JStr memo), w1)"
    and "memo \<noteq> []"
    and "out = (case output_file of
                  None \<Rightarrow> fst (splitext input_file) @ py ''_memo.txt''
                | Some path \<Rightarrow> path)"
  shows "(open_fault w out = None \<and> write_fault w out memo = None \<longrightarrow>
            fst (generate_memo_from_file L self input_file output_file w) = JStr memo \<and>
            fs (snd (generate_memo_from_file L self input_file output_file w)) = (fs w)(out := File memo)) \<and>
         (open_fault w out \<noteq> None \<or> write_fault w out memo \<noteq> None \<longrightarrow>
            fst (generate_memo_from_file L self input_file output_file w) = JNull)"
proof -
  have fr: "fs w1 = fs w" "open_fault w1 = open_fault w" "write_fault w1 = write_fault w"
    using generate_memo_frame [OF assms(2)] by simp_all
  show ?thesis
    using assms(1,2,3) fr
    unfolding generate_memo_from_file_def Let_def assms(4) [symmetric]
    by (auto simp: write_file_def open_w_def write_w_def memo_failed_def
        split: option.splits)
qed

lemma example_summary:
  "fst (generate_memo example_lib (example_generator (py ''openai'') (py ''sk-test''))
          (py ''Alice: hi\<newline>Bob: hello'')
          (example_world [(py ''meeting.txt'', py ''Alice: hi\<newline>Bob: hello'')]
              (reply 200 [] (Some (openai_body (py ''Meeting summary.''))))))
   = Inr (JStr (py ''Meeting summary.''))"
  by (simp add: run_simps)

theorem memo_written_witness:
  "fst (generate_memo_from_file example_lib (example_generator (py ''openai'') (py ''sk-test''))
          (py ''meeting.txt'') None
          (example_world [(py ''meeting.txt'', py ''Alice: hi\<newline>Bob: hello'')]
              (reply 200 [] (Some (openai_body (py ''Meeting summary.''))))))
     = JStr (py ''Meeting summary.'') \<and>
   fs (snd (generate_memo_from_file example_lib (example_generator (py ''openai'') (py ''sk-test''))
          (py ''meeting.txt'') None
          (example_world [(py ''meeting.txt'', py ''Alice: hi\<newline>Bob: hello'')]
              (reply 200 [] (Some (openai_body (py ''Meeting summary.'')))))))
      (py ''meeting_memo.txt'') = File (py ''Meeting summary.'') \<and>
   fst (generate_memo_from_file example_lib (example_generator (py ''openai'') (py ''sk-test''))
          (py ''meeting.txt'') None
          ((example_world [(py ''meeting.txt'', py ''Alice: hi\<newline>Bob: hello'')]
              (reply 200 [] (Some (openai_body (py ''Meeting summary.'')))))
           \<lparr>open_fault := (\<lambda>p. Some (OtherError 13))\<rparr>))
     = JNull"
proof -
  let ?w = "example_world [(py ''meeting.txt'', py ''Alice: hi\<newline>Bob: hello'')]
              (reply 200 [] (Some (openai_body (py ''Meeting summary.''))))"
  let ?bad = "?w\<lparr>open_fault := (\<lambda>p. Some (OtherError 13))\<rparr>"
  let ?g = "example_generator (py ''openai'') (py ''sk-test'')"
  let ?t = "py ''Alice: hi\<newline>Bob: hello''"
  have r: "read_text ?w (py ''meeting.txt'') = Inr ?t" "read_text ?bad (py ''meeting.txt'') = Inr ?t"
    by (simp_all add: read_text_def example_world_def)
  have g: "generate_memo example_lib ?g ?t ?w
           = (Inr (JStr (py ''Meeting summary.'')), snd (generate_memo example_lib ?g ?t ?w))"
    using example_summary by (simp add: prod_eq_iff)
  have g': "generate_memo example_lib ?g ?t ?bad
           = (Inr (JStr (py ''Meeting summary.'')), snd (generate_memo example_lib ?g ?t ?bad))"
    by (simp add: prod_eq_iff) (simp add: run_simps)
  have n: "py ''Meeting summary.'' \<noteq> []" by simp
  have o: "py ''meeting_memo.txt'' = (case None of
             None \<Rightarrow> fst (splitext (py ''meeting.txt'')) @ py ''_memo.txt'' | Some path \<Rightarrow> path)"
    by (simp add: splitext_meeting)
  have f: "open_fault ?w (py ''meeting_memo.txt'') = None \<and>
           write_fault ?w (py ''meeting_memo.txt'') (py ''Meeting summary.'') = None"
    by (simp add: example_world_def)
  have f': "open_fault ?bad (py ''meeting_memo.txt'') \<noteq> None"
    by simp
  from memo_written [OF r(1) g n o] f memo_written [OF r(2) g' n o] f'
  show ?thesis by simp
qed

text \<open>
  C1 as stated fails for the empty text: the provider answers with the content \<open>""\<close>,
  the input file reads and nothing stands in the way of the write, yet the call returns
  \<open>None\<close> and no output file exists afterwards.
\<close>

theorem empty_memo_not_written:
  "read_text (example_world [(py ''meeting.txt'', py ''Alice: hi'')] (reply 200 [] (Some (openai_body []))))
     (py ''meeting.txt'') = Inr (py ''Alice: hi'') \<and>
   fst (generate_memo example_lib (example_generator (py ''openai'') (py ''sk-test'')) (py ''Alice: hi'')
     (example_world [(py ''meeting.txt'', py ''Alice: hi'')] (reply 200 [] (Some (openai_body [])))))
     = Inr (JStr []) \<and>
   fst (generate_memo_from_file example_lib (example_generator (py ''openai'') (py ''sk-test''))
     (py ''meeting.txt'') None
     (example_world [(py ''meeting.txt'', py ''Alice: hi'')] (reply 200 [] (Some (openai_body [])))))
     = JNull \<and>
   fs (snd (generate_memo_from_file example_lib (example_generator (py ''openai'') (py ''sk-test''))
     (py ''meeting.txt'') None
     (example_world [(py ''meeting.txt'', py ''Alice: hi'')] (reply 200 [] (Some (openai_body []))))))
     (py ''meeting_memo.txt'') = Missing"
  by (simp add: run_simps splitext_meeting)

text \<open>
  C2. When the input file reads and generation fails, by returning \<open>None\<close> or by an
  exception, \<open>generate_memo_from_file\<close> returns \<open>None\<close> and the file system is what it
  was: no file is created or modified.
\<close>

theorem failed_generation_writes_nothing:
  assumes "read_text w input_file = Inr transcription"
    and "fst (generate_memo L self transcription w) = Inr JNull \<or>
         fst (generate_memo L self transcription w) = Inl e"
  shows "fst (generate_memo_from_file L self input_file output_file w) = JNull \<and>
         fs (snd (generate_memo_from_file L self input_file output_file w)) = fs w"
proof -
  obtain r w1 where g: "generate_memo L self transcription w = (r, w1)"
    by (cases "generate_memo L self transcription w")
  from generate_memo_frame [OF g] have "fs w1 = fs w" by simp
  with assms g show ?thesis
    unfolding generate_memo_from_file_def Let_def
    by (auto simp: memo_failed_def)
qed

theorem failed_generation_writes_nothing_witness:
  "fst (generate_memo example_lib (example_generator (py ''openai'') (py ''sk-test'')) (py ''Alice: hi'')
     (example_world [(py ''meeting.txt'', py ''Alice: hi'')] (reply 401 (py ''unauthorized'') None)))
     = Inr JNull \<and>
   fst (generate_memo_from_file example_lib (example_generator (py ''openai'') (py ''sk-test''))
     (py ''meeting.txt'') None
     (example_world [(py ''meeting.txt'', py ''Alice: hi'')] (reply 401 (py ''unauthorized'') None)))
     = JNull \<and>
   fs (snd (generate_memo_from_file example_lib (example_generator (py ''openai'') (py ''sk-test''))
     (py ''meeting.txt'') None
     (example_world [(py ''meeting.txt'', py ''Alice: hi'')] (reply 401 (py ''unauthorized'') None))))
     (py ''meeting_memo.txt'') = Missing"
proof -
  let ?w = "example_world [(py ''meeting.txt'', py ''Alice: hi'')] (reply 401 (py ''unauthorized'') None)"
  let ?g = "example_generator (py ''openai'') (py ''sk-test'')"
  have r: "read_text ?w (py ''meeting.txt'') = Inr (py ''Alice: hi'')"
    by (simp add: read_text_def example_world_def)
  have g: "fst (generate_memo example_lib ?g (py ''Alice: hi'') ?w) = Inr JNull"
    by (simp add: run_simps)
  have m: "fs ?w (py ''meeting_memo.txt'') = Missing"
    by (simp add: example_world_def)
  from failed_generation_writes_nothing [OF r disjI1, OF g, of None] g m show ?thesis by simp
qed

text \<open>
  C10 as stated fails at \<open>generate_memo\<close>, a public method: for an empty summary it
  returns \<open>""\<close> and for a provider error \<open>None\<close>, so its caller can tell the two apart.
\<close>

theorem empty_summary_differs_from_error:
  "fst (generate_memo example_lib (example_generator (py ''openai'') (py ''sk-test'')) (py ''Alice: hi'')
     (example_world [] (reply 200 [] (Some (openai_body [])))))
     = Inr (JStr []) \<and>
   fst (generate_memo example_lib (example_generator (py ''openai'') (py ''sk-test'')) (py ''Alice: hi'')
     (example_world [] (reply 401 (py ''unauthorized'') None)))
     = Inr JNull"
  by (simp add: run_simps)

text \<open>
  C10, as amended. Let the selected provider adapter, called by \<open>generate_memo\<close> with the
  rendered prompt, return \<open>r\<close>, the empty string or \<open>None\<close>. Then \<open>generate_memo\<close> logs
  the call as failed and returns \<open>r\<close> itself, so \<open>""\<close> for the empty string, and
  \<open>generate_memo_from_file\<close> does for the empty string exactly what it does for \<open>None\<close>:
  it returns \<open>None\<close>, writes no file and adds nothing to what \<open>generate_memo\<close> logged.
\<close>

theorem empty_summary_is_failure:
  assumes "read_text w input_file = Inr transcription"
    and "config_get self (py ''templates'') (py ''default'') = Inr template"
    and "method_replace template (py ''{transcription}'') transcription = Inr prompt"
    and "config_get self (py ''llm'') (py ''provider'') = Inr provider"
    and "provider = JStr (py ''openai'') \<and>
           call_openai_api L self prompt (emit (ApiCallStarted provider) w) = (Inr r, w1) \<or>
         provider = JStr (py ''anthropic'') \<and>
           call_anthropic_api self prompt (emit (ApiCallStarted provider) w) = (Inr r, w1) \<or>
         provider = JStr (py ''google'') \<and>
           call_google_api L self prompt (emit (ApiCallStarted provider) w) = (Inr r, w1)"
    and "r = JStr [] \<or> r = JNull"
  shows "generate_memo L self transcription w = (Inr r, emit (ApiCallFailed provider) w1) \<and>
         generate_memo_from_file L self input_file output_file w
           = (JNull, emit (ApiCallFailed provider) w1) \<and>
         fs w1 = fs w"
proof -
  have g: "generate_memo L self transcription w = (Inr r, emit (ApiCallFailed provider) w1)"
    using assms(2-6) by (auto simp: generate_memo_def and_then_def Let_def)
  have f: "generate_memo_from_file L self input_file output_file w
             = (JNull, emit (ApiCallFailed provider) w1)"
    using assms(1,6) g by (auto simp: generate_memo_from_file_def Let_def)
  have "fs (emit (ApiCallFailed provider) w1) = fs w"
    using generate_memo_frame [OF g] by simp
  then have "fs w1 = fs w" by simp
  with g f show ?thesis by simp
qed

lemma example_empty_google:
  "call_google_api example_lib (example_generator (py ''google'') (py ''g-key''))
     (py ''Summarize:\<newline>Alice: hi'')
     (emit (ApiCallStarted (JStr (py ''google'')))
        (example_world [(py ''meeting.txt'', py ''Alice: hi'')] (reply 200 [] (Some (google_body [])))))
   = (Inr (JStr []),
      (emit (ApiCallStarted (JStr (py ''google'')))
        (example_world [(py ''meeting.txt'', py ''Alice: hi'')] (reply 200 [] (Some (google_body [])))))
      \<lparr>posts := posts (snd (call_google_api example_lib (example_generator (py ''google'') (py ''g-key''))
          (py ''Summarize:\<newline>Alice: hi'')
          (emit (ApiCallStarted (JStr (py ''google'')))
            (example_world [(py ''meeting.txt'', py ''Alice: hi'')]
               (reply 200 [] (Some (google_body []))))))) \<rparr>)"
  by (simp add: run_simps replace.simps)

theorem empty_summary_is_failure_witness:
  "fst (generate_memo example_lib (example_generator (py ''google'') (py ''g-key'')) (py ''Alice: hi'')
     (example_world [(py ''meeting.txt'', py ''Alice: hi'')] (reply 200 [] (Some (google_body [])))))
     = Inr (JStr []) \<and>
   fst (generate_memo_from_file example_lib (example_generator (py ''google'') (py ''g-key''))
     (py ''meeting.txt'') None
     (example_world [(py ''meeting.txt'', py ''Alice: hi'')] (reply 200 [] (Some (google_body [])))))
     = JNull \<and>
   fs (snd (generate_memo_from_file example_lib (example_generator (py ''google'') (py ''g-key''))
     (py ''meeting.txt'') None
     (example_world [(py ''meeting.txt'', py ''Alice: hi'')] (reply 200 [] (Some (google_body []))))))
     (py ''meeting_memo.txt'') = Missing \<and>
   last (logged (snd (generate_memo example_lib (example_generator (py ''google'') (py ''g-key''))
     (py ''Alice: hi'')
     (example_world [(py ''meeting.txt'', py ''Alice: hi'')] (reply 200 [] (Some (google_body [])))))))
     = ApiCallFailed (JStr (py ''google''))"
proof -
  let ?w = "example_world [(py ''meeting.txt'', py ''Alice: hi'')] (reply 200 [] (Some (google_body [])))"
  let ?g = "example_generator (py ''google'') (py ''g-key'')"
  have r: "read_text ?w (py ''meeting.txt'') = Inr (py ''Alice: hi'')"
    by (simp add: read_text_def example_world_def)
  have t: "config_get ?g (py ''templates'') (py ''default'')
           = Inr (JStr (py ''Summarize:\<newline>{transcription}''))"
    by (simp add: config_get_def and_then_def example_generator_def)
  have m: "method_replace (JStr (py ''Summarize:\<newline>{transcription}'')) (py ''{transcription}'')
             (py ''Alice: hi'') = Inr (py ''Summarize:\<newline>Alice: hi'')"
    by (simp add: replace.simps py_def)
  have p: "config_get ?g (py ''llm'') (py ''provider'') = Inr (JStr (py ''google''))"
    by (simp add: config_get_def and_then_def example_generator_def)
  have m0: "fs ?w (py ''meeting_memo.txt'') = Missing"
    by (simp add: example_world_def)
  note c = disjI2 [OF disjI2, OF conjI, OF refl example_empty_google]
  from empty_summary_is_failure [OF r t m p c disjI1, OF refl, of None] m0
  show ?thesis by simp
qed

section \<open>Credentials\<close>

text \<open>
  With a key that is present and empty (or any value that counts as false), the adapters
  of providers A and B return \<open>None\<close>; so does the adapter of provider C, also when
  its key is absent. Each logs that no key is set and issues no request.
\<close>

theorem empty_credential_no_request:
  assumes "getitem (config self) (py ''llm'') = Inr (JObj kvs)"
  shows "(map_of kvs (py ''api_key'') = Some k \<and> \<not> truthy k \<longrightarrow>
            fst (call_openai_api L self prompt w) = Inr JNull \<and>
            posts (snd (call_openai_api L self prompt w)) = posts w \<and>
            fst (call_anthropic_api self prompt w) = Inr JNull \<and>
            posts (snd (call_anthropic_api self prompt w)) = posts w) \<and>
         (map_of kvs (py ''google_api_key'') = None \<or>
          map_of kvs (py ''google_api_key'') = Some k \<and> \<not> truthy k \<longrightarrow>
            fst (call_google_api L self prompt w) = Inr JNull \<and>
            posts (snd (call_google_api L self prompt w)) = posts w)"
  using assms
  by (auto simp: call_openai_api_def call_anthropic_api_def call_google_api_def
      config_get_def and_then_def)

theorem empty_credential_no_request_witness:
  "fst (call_openai_api example_lib \<lparr>config = default_config, config_path = py ''config.json''\<rparr>
     (py ''hi'') (example_world [] (reply 200 [] None))) = Inr JNull \<and>
   posts (snd (call_openai_api example_lib \<lparr>config = default_config, config_path = py ''config.json''\<rparr>
     (py ''hi'') (example_world [] (reply 200 [] None)))) = [] \<and>
   fst (call_anthropic_api \<lparr>config = default_config, config_path = py ''config.json''\<rparr>
     (py ''hi'') (example_world [] (reply 200 [] None))) = Inr JNull \<and>
   posts (snd (call_anthropic_api \<lparr>config = default_config, config_path = py ''config.json''\<rparr>
     (py ''hi'') (example_world [] (reply 200 [] None)))) = [] \<and>
   fst (call_google_api example_lib \<lparr>config = default_config, config_path = py ''config.json''\<rparr>
     (py ''hi'') (example_world [] (reply 200 [] None))) = Inr JNull \<and>
   posts (snd (call_google_api example_lib \<lparr>config = default_config, config_path = py ''config.json''\<rparr>
     (py ''hi'') (example_world [] (reply 200 [] None)))) = []"
proof -
  let ?g = "\<lparr>config = default_config, config_path = py ''config.json''\<rparr>"
  have l: "getitem (config ?g) (py ''llm'') = Inr (JObj [
          (py ''provider'', JStr (py ''openai'')),
          (py ''api_key'', JStr []),
          (py ''model'', JStr (py ''gpt-4o-mini'')),
          (py ''temperature'', JFloat 0.3),
          (py ''max_tokens'', JInt 1500)])"
    by (simp add: default_config_def)
  from empty_credential_no_request [OF l, of "JStr []" example_lib "py ''hi''"
      "example_world [] (reply 200 [] None)"]
  show ?thesis by (simp add: example_world_def)
qed

text \<open>
  C3 at the configuration that \<open>gui.py\<close> writes, which has no \<open>"api_key"\<close>: the adapters
  of providers A and B raise \<open>KeyError\<close> instead of returning a failure. They issue no
  request and log nothing.
\<close>

theorem missing_api_key_raises:
  "call_openai_api L \<lparr>config = gui_default_config, config_path = path\<rparr> prompt w = (Inl KeyError, w) \<and>
   call_anthropic_api \<lparr>config = gui_default_config, config_path = path\<rparr> prompt w = (Inl KeyError, w)"
  by (simp add: call_openai_api_def call_anthropic_api_def config_get_def and_then_def
      gui_default_config_def)


text \<open>
  The key of providers A and B and the key of provider C are separate entries:
  \<open>set_api_key\<close> stores the key that the adapters of A and B read and leaves the key of
  C as it was, and \<open>set_google_api_key\<close> stores the key of C and leaves the other.
\<close>

theorem key_slots:
  assumes "getitem (config self) (py ''llm'') = Inr (JObj kvs)"
  shows "and_then (set_api_key self k) (\<lambda>self'. config_get self' (py ''llm'') (py ''api_key''))
           = Inr (JStr k) \<and>
         and_then (set_api_key self k) (\<lambda>self'. config_get self' (py ''llm'') (py ''google_api_key''))
           = config_get self (py ''llm'') (py ''google_api_key'') \<and>
         and_then (set_google_api_key self k) (\<lambda>self'. config_get self' (py ''llm'') (py ''google_api_key''))
           = Inr (JStr k) \<and>
         and_then (set_google_api_key self k) (\<lambda>self'. config_get self' (py ''llm'') (py ''api_key''))
           = config_get self (py ''llm'') (py ''api_key'')"
proof -
  obtain c where c: "config self = JObj c" "map_of c (py ''llm'') = Some (JObj kvs)"
    using assms by (cases "config self") (auto split: option.splits)
  show ?thesis
    by (simp add: set_api_key_def set_google_api_key_def config_set_def config_get_def
        and_then_def c update_conv')
qed

theorem key_slots_witness:
  "and_then (set_api_key (example_generator (py ''openai'') (py ''old'')) (py ''new''))
     (\<lambda>self'. config_get self' (py ''llm'') (py ''api_key'')) = Inr (JStr (py ''new'')) \<and>
   and_then (set_api_key (example_generator (py ''openai'') (py ''old'')) (py ''new''))
     (\<lambda>self'. config_get self' (py ''llm'') (py ''google_api_key'')) = Inr (JStr (py ''old''))"
proof -
  let ?g = "example_generator (py ''openai'') (py ''old'')"
  have l: "getitem (config ?g) (py ''llm'') = Inr (JObj [
           (py ''provider'', JStr (py ''openai'')),
           (py ''api_key'', JStr (py ''old'')),
           (py ''google_api_key'', JStr (py ''old'')),
           (py ''model'', JStr (py ''gemini-pro'')),
           (py ''temperature'', JFloat 0.3),
           (py ''max_tokens'', JInt 1500)])"
    by (simp add: example_generator_def)
  from key_slots [OF l, of "py ''new''"] show ?thesis
    by (simp add: config_get_def and_then_def example_generator_def)
qed

section \<open>Configuration\<close>

text \<open>
  C5 as stated fails: a configuration file whose bytes are not UTF-8 is malformed, and
  \<open>_load_config\<close> raises the \<open>UnicodeDecodeError\<close> instead of returning the default.
\<close>

theorem load_config_raises_on_undecodable:
  "fs ((example_world [] (reply 200 [] None))\<lparr>fs := (\<lambda>p. Unreadable UnicodeDecodeError)\<rparr>)
     (py ''config.json'') = Unreadable UnicodeDecodeError \<and>
   fst (load_config example_lib (py ''config.json'')
         ((example_world [] (reply 200 [] None))\<lparr>fs := (\<lambda>p. Unreadable UnicodeDecodeError)\<rparr>))
     = Inl UnicodeDecodeError \<and>
   fst (init example_lib (py ''config.json'')
         ((example_world [] (reply 200 [] None))\<lparr>fs := (\<lambda>p. Unreadable UnicodeDecodeError)\<rparr>))
     = Inl UnicodeDecodeError"
  by (simp add: init_def load_config_def read_text_def and_then_def example_world_def)

text \<open>
  C5, as amended. When opening the configuration file raises \<open>FileNotFoundError\<close> (no
  such file) or the file reads and \<open>json.load\<close> raises \<open>JSONDecodeError\<close>,
  \<open>_load_config\<close> logs the error and returns the built-in default configuration:
  provider \<open>openai\<close>, the key \<open>""\<close> for every adapter, the default template. Any other
  exception of opening, reading or parsing leaves \<open>_load_config\<close> and the constructor.
\<close>

theorem load_config_falls_back:
  "(fs w path = Missing \<or> (\<exists>s. fs w path = File s \<and> json_loads L s = Inl JSONDecodeError) \<longrightarrow>
      fst (load_config L path w) = Inr default_config \<and>
      fst (init L path w) = Inr \<lparr>config = default_config, config_path = path\<rparr> \<and>
      (\<exists>e. logged (snd (load_config L path w)) = logged w @ [ConfigLoadError e])) \<and>
   (e \<noteq> FileNotFoundError \<and> e \<noteq> JSONDecodeError \<and>
    (fs w path = Unreadable e \<or> (\<exists>s. fs w path = File s \<and> json_loads L s = Inl e)) \<longrightarrow>
      load_config L path w = (Inl e, w) \<and> init L path w = (Inl e, w)) \<and>
   config_get \<lparr>config = default_config, config_path = path\<rparr> (py ''llm'') (py ''provider'')
     = Inr (JStr (py ''openai'')) \<and>
   config_get \<lparr>config = default_config, config_path = path\<rparr> (py ''llm'') (py ''api_key'')
     = Inr (JStr []) \<and>
   and_then (getitem default_config (py ''llm'')) (\<lambda>llm. method_get llm (py ''google_api_key'') (JStr []))
     = Inr (JStr []) \<and>
   config_get \<lparr>config = default_config, config_path = path\<rparr> (py ''templates'') (py ''default'')
     = Inr (JStr default_template)"
proof -
  have a: "fst (load_config L path w) = Inr default_config \<and>
           fst (init L path w) = Inr \<lparr>config = default_config, config_path = path\<rparr> \<and>
           (\<exists>e. logged (snd (load_config L path w)) = logged w @ [ConfigLoadError e])"
    if "fs w path = Missing \<or> (\<exists>s. fs w path = File s \<and> json_loads L s = Inl JSONDecodeError)"
    using that by (auto simp: init_def load_config_def read_text_def and_then_def)
  have b: "load_config L path w = (Inl e, w) \<and> init L path w = (Inl e, w)"
    if "e \<noteq> FileNotFoundError" "e \<noteq> JSONDecodeError"
       "fs w path = Unreadable e \<or> (\<exists>s. fs w path = File s \<and> json_loads L s = Inl e)"
    using that by (auto simp: init_def load_config_def read_text_def and_then_def)
  have c: "config_get \<lparr>config = default_config, config_path = path\<rparr> (py ''llm'') (py ''provider'')
             = Inr (JStr (py ''openai''))"
    "config_get \<lparr>config = default_config, config_path = path\<rparr> (py ''llm'') (py ''api_key'')
             = Inr (JStr [])"
    "and_then (getitem default_config (py ''llm'')) (\<lambda>llm. method_get llm (py ''google_api_key'') (JStr []))
             = Inr (JStr [])"
    "config_get \<lparr>config = default_config, config_path = path\<rparr> (py ''templates'') (py ''default'')
             = Inr (JStr default_template)"
    by (simp_all add: config_get_def and_then_def default_config_def)
  from a b c show ?thesis by blast
qed

theorem load_config_falls_back_witness:
  "fs (example_world [] (reply 200 [] None)) (py ''config.json'') = Missing \<and>
   fst (load_config example_lib (py ''config.json'') (example_world [] (reply 200 [] None)))
     = Inr default_config \<and>
   json_loads example_lib (py ''{'') = Inl JSONDecodeError \<and>
   fst (load_config example_lib (py ''config.json'')
          (example_world [(py ''config.json'', py ''{'')] (reply 200 [] None)))
     = Inr default_config \<and>
   load_config example_lib (py ''config.json'')
     ((example_world [] (reply 200 [] None))\<lparr>fs := (\<lambda>p. Unreadable (OtherError 13))\<rparr>)
     = (Inl (OtherError 13),
        (example_world [] (reply 200 [] None))\<lparr>fs := (\<lambda>p. Unreadable (OtherError 13))\<rparr>)"
proof -
  let ?w = "example_world [] (reply 200 [] None)"
  let ?m = "example_world [(py ''config.json'', py ''{'')] (reply 200 [] None)"
  let ?u = "?w\<lparr>fs := (\<lambda>p. Unreadable (OtherError 13))\<rparr>"
  have a: "fs ?w (py ''config.json'') = Missing"
    by (simp add: example_world_def)
  have b: "\<exists>s. fs ?m (py ''config.json'') = File s \<and> json_loads example_lib s = Inl JSONDecodeError"
    by (simp add: example_world_def example_lib_def)
  have c: "fs ?u (py ''config.json'') = Unreadable (OtherError 13)"
    by simp
  from load_config_falls_back [of ?w "py ''config.json''" example_lib]
       load_config_falls_back [of ?m "py ''config.json''" example_lib]
       load_config_falls_back [of ?u "py ''config.json''" example_lib "OtherError 13"] a b c
  show ?thesis by (simp add: example_lib_def)
qed

text \<open>
  C6 as stated fails: \<open>save_config\<close> returns the same value, \<open>None\<close>, when the file
  cannot be opened for writing and when the write succeeds.
\<close>

theorem save_config_failure_not_returned:
  "fst (save_config example_lib (example_generator (py ''openai'') (py ''sk-test''))
         ((example_world [] (reply 200 [] None))\<lparr>open_fault := (\<lambda>p. Some (OtherError 13))\<rparr>))
   = fst (save_config example_lib (example_generator (py ''openai'') (py ''sk-test''))
         (example_world [] (reply 200 [] None))) \<and>
   fs (snd (save_config example_lib (example_generator (py ''openai'') (py ''sk-test''))
         ((example_world [] (reply 200 [] None))\<lparr>open_fault := (\<lambda>p. Some (OtherError 13))\<rparr>)))
     (py ''config.json'') = Missing \<and>
   fs (snd (save_config example_lib (example_generator (py ''openai'') (py ''sk-test''))
         (example_world [] (reply 200 [] None))))
     (py ''config.json'') = File (py ''{}'')"
  by (simp add: save_config_def write_file_def open_w_def write_w_def emit_def
      example_lib_def example_generator_def example_world_def)

text \<open>
  C6, as amended. \<open>save_config\<close> returns \<open>None\<close> on every path. A write that succeeds
  leaves the serialised configuration in the file and an info entry in the log; a write
  that fails is caught and leaves an error entry with the exception in the log, and
  nothing else tells the caller.
\<close>

theorem save_config_reports_in_log:
  assumes "p = config_path self" and "text = json_dumps L (config self)"
  shows "fst (save_config L self w) = JNull \<and>
         (open_fault w p = None \<and> write_fault w p text = None \<longrightarrow>
            fs (snd (save_config L self w)) = (fs w)(p := File text) \<and>
            logged (snd (save_config L self w)) = logged w @ [ConfigSaved p]) \<and>
         (open_fault w p = Some e \<longrightarrow>
            fs (snd (save_config L self w)) = fs w \<and>
            logged (snd (save_config L self w)) = logged w @ [ConfigSaveFailed e]) \<and>
         (open_fault w p = None \<and> write_fault w p text = Some (e, n) \<longrightarrow>
            logged (snd (save_config L self w)) = logged w @ [ConfigSaveFailed e])"
  unfolding assms
  by (auto simp: save_config_def write_file_def open_w_def write_w_def split: option.splits)

theorem save_config_reports_in_log_witness:
  "open_fault ((example_world [] (reply 200 [] None))\<lparr>open_fault := (\<lambda>p. Some (OtherError 13))\<rparr>)
     (py ''config.json'') = Some (OtherError 13) \<and>
   fst (save_config example_lib (example_generator (py ''openai'') (py ''sk-test''))
         ((example_world [] (reply 200 [] None))\<lparr>open_fault := (\<lambda>p. Some (OtherError 13))\<rparr>)) = JNull \<and>
   logged (snd (save_config example_lib (example_generator (py ''openai'') (py ''sk-test''))
         ((example_world [] (reply 200 [] None))\<lparr>open_fault := (\<lambda>p. Some (OtherError 13))\<rparr>)))
     = [ConfigSaveFailed (OtherError 13)] \<and>
   logged (snd (save_config example_lib (example_generator (py ''openai'') (py ''sk-test''))
         (example_world [] (reply 200 [] None))))
     = [ConfigSaved (py ''config.json'')]"
proof -
  let ?g = "example_generator (py ''openai'') (py ''sk-test'')"
  let ?w = "example_world [] (reply 200 [] None)"
  let ?bad = "?w\<lparr>open_fault := (\<lambda>p. Some (OtherError 13))\<rparr>"
  have p: "py ''config.json'' = config_path ?g" by (simp add: example_generator_def)
  have t: "py ''{}'' = json_dumps example_lib (config ?g)" by (simp add: example_lib_def)
  from save_config_reports_in_log [OF p t, of ?bad "OtherError 13"]
       save_config_reports_in_log [OF p t, of ?w]
  show ?thesis by (simp add: example_world_def)
qed

section \<open>Temperature\<close>

text \<open>
  C9. For every real \<open>x\<close>, on a configuration with an \<open>"llm"\<close> object,
  \<open>set_temperature\<close> succeeds and the temperature read back is \<open>0\<close> below \<open>0\<close>,
  \<open>1\<close> above \<open>1\<close> and \<open>x\<close> itself in between.
\<close>

theorem set_temperature_clamps:
  assumes "getitem (config self) (py ''llm'') = Inr (JObj kvs)"
  shows "and_then (set_temperature self x) (\<lambda>self'. config_get self' (py ''llm'') (py ''temperature''))
         = Inr (JFloat (if x < 0 then 0 else if 1 < x then 1 else x))"
proof -
  obtain c where c: "config self = JObj c" "map_of c (py ''llm'') = Some (JObj kvs)"
    using assms by (cases "config self") (auto split: option.splits)
  show ?thesis
    by (simp add: set_temperature_def config_set_def config_get_def and_then_def c update_conv'
        max_def min_def)
qed

theorem set_temperature_clamps_witness:
  "and_then (set_temperature (example_generator (py ''openai'') (py ''sk-test'')) (- 5))
     (\<lambda>self'. config_get self' (py ''llm'') (py ''temperature'')) = Inr (JFloat 0) \<and>
   and_then (set_temperature (example_generator (py ''openai'') (py ''sk-test'')) 1.7)
     (\<lambda>self'. config_get self' (py ''llm'') (py ''temperature'')) = Inr (JFloat 1) \<and>
   and_then (set_temperature (example_generator (py ''openai'') (py ''sk-test'')) 0.4)
     (\<lambda>self'. config_get self' (py ''llm'') (py ''temperature'')) = Inr (JFloat 0.4)"
proof -
  let ?g = "example_generator (py ''openai'') (py ''sk-test'')"
  have l: "getitem (config ?g) (py ''llm'') = Inr (JObj [
           (py ''provider'', JStr (py ''openai'')),
           (py ''api_key'', JStr (py ''sk-test'')),
           (py ''google_api_key'', JStr (py ''sk-test'')),
           (py ''model'', JStr (py ''gemini-pro'')),
           (py ''temperature'', JFloat 0.3),
           (py ''max_tokens'', JInt 1500)])"
    by (simp add: example_generator_def)
  from set_temperature_clamps [OF l, of "- 5"] set_temperature_clamps [OF l, of "1.7"]
       set_temperature_clamps [OF l, of "0.4"]
  show ?thesis by simp
qed

text \<open>
  \<open>set_max_tokens\<close> stores the larger of \<open>1\<close> and its argument.
\<close>

theorem set_max_tokens_clamps:
  assumes "getitem (config self) (py ''llm'') = Inr (JObj kvs)"
  shows "and_then (set_max_tokens self n) (\<lambda>self'. config_get self' (py ''llm'') (py ''max_tokens''))
         = Inr (JInt (if n < 1 then 1 else n))"
proof -
  obtain c where c: "config self = JObj c" "map_of c (py ''llm'') = Some (JObj kvs)"
    using assms by (cases "config self") (auto split: option.splits)
  show ?thesis
    by (simp add: set_max_tokens_def config_set_def config_get_def and_then_def c update_conv'
        max_def)
qed

theorem set_max_tokens_clamps_witness:
  "and_then (set_max_tokens (example_generator (py ''openai'') (py ''sk-test'')) 0)
     (\<lambda>self'. config_get self' (py ''llm'') (py ''max_tokens'')) = Inr (JInt 1) \<and>
   and_then (set_max_tokens (example_generator (py ''openai'') (py ''sk-test'')) (- 10))
     (\<lambda>self'. config_get self' (py ''llm'') (py ''max_tokens'')) = Inr (JInt 1) \<and>
   and_then (set_max_tokens (example_generator (py ''openai'') (py ''sk-test'')) 500)
     (\<lambda>self'. config_get self' (py ''llm'') (py ''max_tokens'')) = Inr (JInt 500)"
proof -
  let ?g = "example_generator (py ''openai'') (py ''sk-test'')"
  have l: "getitem (config ?g) (py ''llm'') = Inr (JObj [
           (py ''provider'', JStr (py ''openai'')),
           (py ''api_key'', JStr (py ''sk-test'')),
           (py ''google_api_key'', JStr (py ''sk-test'')),
           (py ''model'', JStr (py ''gemini-pro'')),
           (py ''temperature'', JFloat 0.3),
           (py ''max_tokens'', JInt 1500)])"
    by (simp add: example_generator_def)
  from set_max_tokens_clamps [OF l, of 0] set_max_tokens_clamps [OF l, of "- 10"]
       set_max_tokens_clamps [OF l, of 500]
  show ?thesis by simp
qed

section \<open>Provider C response\<close>

lemma collect_text_parts:
  "list_all text_part parts \<Longrightarrow>
   and_then (collect_text parts) join_empty = Inr (concat (part_texts parts))"
proof (induction parts)
  case Nil
  show ?case by (simp add: and_then_def)
next
  case (Cons p ps)
  then obtain kvs where p: "p = JObj kvs" and t: "text_part (JObj kvs)" and ps: "list_all text_part ps"
    by (cases p) auto
  from Cons.IH [OF ps] obtain ts where ts: "collect_text ps = Inr ts"
    "join_empty ts = Inr (concat (part_texts ps))"
    by (auto simp: and_then_def split: sum.splits)
  show ?case
  proof (cases "map_of kvs (py ''text'')")
    case None
    with p ts show ?thesis by (simp add: and_then_def)
  next
    case (Some v)
    with t obtain s where "v = JStr s" by (cases v) auto
    with Some p ts show ?thesis by (simp add: and_then_def)
  qed
qed

lemma google_text_parts:
  assumes "parts_of result = Some (JArr parts)" and "list_all text_part parts"
  shows "google_text result = Inr (Some (concat (part_texts parts)))"
proof -
  from assms(1) obtain body cand rest content where
    "result = JObj body" "map_of body (py ''candidates'') = Some (JArr (JObj cand # rest))"
    "map_of cand (py ''content'') = Some (JObj content)"
    "map_of content (py ''parts'') = Some (JArr parts)"
    by (auto simp: parts_of_def split: json.splits option.splits list.splits)
  moreover from collect_text_parts [OF assms(2)] obtain ts where
    "collect_text parts = Inr ts" "join_empty ts = Inr (concat (part_texts parts))"
    by (auto simp: and_then_def split: sum.splits)
  ultimately show ?thesis
    by (simp add: google_text_def and_then_def)
qed

lemma not_sublist_char: "length k > 1 \<Longrightarrow> \<not> sublist k [c]"
  by (auto simp: sublist_def Cons_eq_append_conv append_eq_Cons_conv)

lemma google_text_no_parts:
  assumes "parts_of result = None"
  shows "google_text result \<noteq> Inr (Some s)"
proof (cases result)
  case (JObj body)
  show ?thesis
  proof (cases "map_of body (py ''candidates'')")
    case None
    with JObj show ?thesis by (simp add: google_text_def and_then_def)
  next
    case (Some candidates)
    show ?thesis
    proof (cases candidates)
      case (JArr cs)
      show ?thesis
      proof (cases cs)
        case Nil
        with JObj Some JArr show ?thesis by (simp add: google_text_def and_then_def)
      next
        case (Cons candidate rest)
        show ?thesis
        proof (cases candidate)
          case cand: (JObj cand)
          show ?thesis
          proof (cases "map_of cand (py ''content'')")
            case None
            with JObj Some JArr Cons cand show ?thesis by (simp add: google_text_def and_then_def)
          next
            case content: (Some content)
            show ?thesis
            proof (cases content)
              case c: (JObj cfields)
              have "map_of cfields (py ''parts'') = None"
                using assms JObj Some JArr Cons cand content c by (simp add: parts_of_def)
              with JObj Some JArr Cons cand content c show ?thesis
                by (simp add: google_text_def and_then_def)
            qed (use JObj Some JArr Cons cand content in
                 \<open>simp_all add: google_text_def and_then_def\<close>)
          qed
        qed (use JObj Some JArr Cons in \<open>simp_all add: google_text_def and_then_def\<close>)
      qed
    next
      case (JStr cs)
      have "\<not> sublist (py ''content'') [c]" for c
        by (rule not_sublist_char) (simp add: py_def)
      with JObj Some JStr show ?thesis
        by (cases cs) (simp_all add: google_text_def and_then_def)
    qed (use JObj Some in \<open>simp_all add: google_text_def and_then_def\<close>)
  qed
qed (simp_all add: google_text_def and_then_def)

lemma call_google_api_200:
  assumes "and_then (getitem (config self) (py ''llm''))
             (\<lambda>llm. method_get llm (py ''google_api_key'') (JStr [])) = Inr api_key"
    and "truthy api_key"
    and "google_request L self api_key prompt = Inr req"
    and "server w req = Inr resp"
    and "status_code resp = 200"
    and "json_body resp = Some result"
  shows "fst (call_google_api L self prompt w) =
           (case google_text result of Inr (Some s) \<Rightarrow> Inr (JStr s) | _ \<Rightarrow> Inr JNull)"
  using assms
  by (simp add: call_google_api_def post_def response_json_def split: sum.splits option.splits)

text \<open>
  C8 as stated fails for a 2xx status other than 200: the same body that yields its text
  with status 200 yields \<open>None\<close> with status 201.
\<close>

theorem google_201_is_failure:
  "fst (call_google_api example_lib (example_generator (py ''google'') (py ''g-key'')) (py ''hi'')
     (example_world [] (reply 201 []
        (Some (google_body [JObj [(py ''text'', JStr (py ''Hello ''))],
                            JObj [(py ''text'', JStr (py ''world''))]])))))
     = Inr JNull \<and>
   fst (call_google_api example_lib (example_generator (py ''google'') (py ''g-key'')) (py ''hi'')
     (example_world [] (reply 200 []
        (Some (google_body [JObj [(py ''text'', JStr (py ''Hello ''))],
                            JObj [(py ''text'', JStr (py ''world''))]])))))
     = Inr (JStr (py ''Hello world''))"
  by (simp add: run_simps replace.simps) (simp add: py_def)

text \<open>
  C8, as amended. Let the adapter of provider C have a key, build its request and receive
  a response with status 200 whose body is JSON. If the body has
  \<open>candidates[0].content.parts\<close> and the parts are a list of objects whose \<open>"text"\<close>
  fields are strings, the adapter returns the concatenation of these fields in order. If
  the body has no such path, the adapter returns \<open>None\<close>.
\<close>

theorem google_text_concatenated:
  assumes "and_then (getitem (config self) (py ''llm''))
             (\<lambda>llm. method_get llm (py ''google_api_key'') (JStr [])) = Inr api_key"
    and "truthy api_key"
    and "google_request L self api_key prompt = Inr req"
    and "server w req = Inr resp"
    and "status_code resp = 200"
    and "json_body resp = Some result"
  shows "(parts_of result = Some (JArr parts) \<and> list_all text_part parts \<longrightarrow>
            fst (call_google_api L self prompt w) = Inr (JStr (concat (part_texts parts)))) \<and>
         (parts_of result = None \<longrightarrow> fst (call_google_api L self prompt w) = Inr JNull)"
proof -
  note run = call_google_api_200 [OF assms]
  have "fst (call_google_api L self prompt w) = Inr (JStr (concat (part_texts parts)))"
    if "parts_of result = Some (JArr parts)" "list_all text_part parts"
    using run google_text_parts [OF that] by simp
  moreover have "fst (call_google_api L self prompt w) = Inr JNull" if "parts_of result = None"
    using run google_text_no_parts [OF that]
    by (auto split: sum.splits option.splits)
  ultimately show ?thesis by blast
qed

theorem google_text_concatenated_witness:
  "parts_of (google_body [JObj [(py ''text'', JStr (py ''Hello ''))], JObj [(py ''text'', JStr (py ''world''))]])
     = Some (JArr [JObj [(py ''text'', JStr (py ''Hello ''))], JObj [(py ''text'', JStr (py ''world''))]]) \<and>
   parts_of (JObj [(py ''error'', JStr (py ''quota''))]) = None \<and>
   list_all text_part [JObj [(py ''text'', JStr (py ''Hello ''))], JObj [(py ''text'', JStr (py ''world''))]] \<and>
   fst (call_google_api example_lib (example_generator (py ''google'') (py ''g-key'')) (py ''hi'')
     (example_world [] (reply 200 []
        (Some (google_body [JObj [(py ''text'', JStr (py ''Hello ''))],
                            JObj [(py ''text'', JStr (py ''world''))]])))))
     = Inr (JStr (py ''Hello world'')) \<and>
   fst (call_google_api example_lib (example_generator (py ''google'') (py ''g-key'')) (py ''hi'')
     (example_world [] (reply 200 [] (Some (JObj [(py ''error'', JStr (py ''quota''))])))))
     = Inr JNull"
proof -
  let ?g = "example_generator (py ''google'') (py ''g-key'')"
  let ?parts = "[JObj [(py ''text'', JStr (py ''Hello ''))], JObj [(py ''text'', JStr (py ''world''))]]"
  let ?w = "\<lambda>body. example_world [] (reply 200 [] (Some body))"
  have k: "and_then (getitem (config ?g) (py ''llm''))
             (\<lambda>llm. method_get llm (py ''google_api_key'') (JStr [])) = Inr (JStr (py ''g-key''))"
    by (simp add: example_generator_def and_then_def)
  have t: "truthy (JStr (py ''g-key''))" by simp
  obtain req where q: "google_request example_lib ?g (JStr (py ''g-key'')) (py ''hi'') = Inr req"
    by (simp add: google_request_def config_get_def and_then_def example_generator_def)
  have s: "server (?w body) req = Inr \<lparr>status_code = 200, body_text = [], json_body = Some body\<rparr>" for body
    by (simp add: example_world_def reply_def)
  have c: "status_code \<lparr>status_code = 200, body_text = [], json_body = Some body\<rparr> = 200" for body :: json
    by simp
  have j: "json_body \<lparr>status_code = 200, body_text = [], json_body = Some body\<rparr> = Some body" for body :: json
    by simp
  have h: "parts_of (google_body ?parts) = Some (JArr ?parts)"
    by (simp add: parts_of_def google_body_def)
  have p: "list_all text_part ?parts" by simp
  have n: "parts_of (JObj [(py ''error'', JStr (py ''quota''))]) = None"
    by (simp add: parts_of_def)
  from google_text_concatenated [OF k t q s c j, of "google_body ?parts" ?parts] h p
  have a: "fst (call_google_api example_lib ?g (py ''hi'') (?w (google_body ?parts)))
           = Inr (JStr (py ''Hello world''))"
    by (simp add: py_def)
  from google_text_concatenated [OF k t q s c j, of "JObj [(py ''error'', JStr (py ''quota''))]"] n
  have b: "fst (call_google_api example_lib ?g (py ''hi'') (?w (JObj [(py ''error'', JStr (py ''quota''))])))
           = Inr JNull"
    by simp
  from a b p h n show ?thesis by simp
qed

end
